theory Spec2Isabelle
  imports Complex_Main
begin

section \<open>Values handled by the factorization front-end\<close>

text \<open>
  The module \<^verbatim>\<open>matrix_factorization.py\<close> receives three matrices \<^verbatim>\<open>a\<close>, \<^verbatim>\<open>u\<close>, \<^verbatim>\<open>v\<close>.
  Each of them is either a concrete NumPy array or a symbolic TensorFlow graph tensor.
  Entries are 64-bit floats; the front-end never does arithmetic on them, it only moves
  them around and (on the graph path) asks whether they are finite. An entry is therefore
  a finite real or one of the three special values.
\<close>

datatype float64 = Fin real | PosInf | NegInf | NaN

fun isfinite :: "float64 \<Rightarrow> bool" where
  "isfinite (Fin x) = True"
| "isfinite PosInf = False"
| "isfinite NegInf = False"
| "isfinite NaN = False"

text \<open>
  A two-dimensional NumPy array: its shape \<^verbatim>\<open>(nrows, ncols)\<close> and its entries, row by row.
\<close>

record ndarray =
  nrows :: nat
  ncols :: nat
  rows :: "float64 list list"

definition wf_ndarray :: "ndarray \<Rightarrow> bool" where
  "wf_ndarray m = (length (rows m) = nrows m \<and> list_all (\<lambda>r. length r = ncols m) (rows m))"

text \<open>\<^verbatim>\<open>m.T\<close>: entry \<^verbatim>\<open>[j, i]\<close> of the result is entry \<^verbatim>\<open>[i, j]\<close> of \<^verbatim>\<open>m\<close>.\<close>

definition transpose_nd :: "ndarray \<Rightarrow> ndarray" where
  "transpose_nd m =
     \<lparr> nrows = ncols m, ncols = nrows m,
       rows = map (\<lambda>j. map (\<lambda>i. rows m ! i ! j) [0..<nrows m]) [0..<ncols m] \<rparr>"

text \<open>Some entry \<^verbatim>\<open>[i, j]\<close> within the shape is a NaN or an infinity.\<close>

definition has_nonfinite :: "ndarray \<Rightarrow> bool" where
  "has_nonfinite m =
     list_ex (\<lambda>i. list_ex (\<lambda>j. \<not> isfinite (rows m ! i ! j)) [0..<ncols m]) [0..<nrows m]"

text \<open>
  Hyper-parameters are bound into the solver by keyword (\<^verbatim>\<open>functools.partial\<close>). A bound
  callable is the imported solver (module and function name) with its keyword arguments.
\<close>

datatype pyval = PBool bool | PInt int | PFloat real

record partial =
  func :: "string \<times> string"
  bound_kwargs :: "(string \<times> pyval) list"

text \<open>
  A graph tensor is the operation that produces it together with its static shape. A
  static shape is a list of dimensions, each a number or unknown (\<open>None\<close>); the shape
  as a whole may be unknown too (\<open>None\<close>, TensorFlow's \<^verbatim>\<open><unknown>\<close>). The operations are the ones this module
  creates (\<^verbatim>\<open>tf.transpose\<close>, \<^verbatim>\<open>tf.py_func\<close> with three inputs and two outputs,
  \<^verbatim>\<open>tf.check_numerics\<close>), constants made from arrays, and placeholders of the caller.
\<close>

type_synonym dim = "nat option"

type_synonym shape = "dim list option"

datatype tensor = Tensor (producer: node) (static_shape: shape)
and node =
    Placeholder string
  | Constant ndarray
  | Transpose tensor
  | PyFunc partial tensor tensor tensor nat
  | CheckNumerics tensor string

datatype matrix = NdArray ndarray | TfTensor tensor

fun is_ndarray :: "matrix \<Rightarrow> bool" where
  "is_ndarray (NdArray x) = True"
| "is_ndarray (TfTensor t) = False"

datatype error =
    AssertionError
  | NotImplementedError
  | AttributeError
  | IndexError
  | ValueError
  | TypeError
  | InvalidArgumentError string
  | SolverKernelError string
  | FeedError string

definition and_then :: "error + 'a \<Rightarrow> ('a \<Rightarrow> error + 'b) \<Rightarrow> error + 'b" where
  "and_then r f = (case r of Inl e \<Rightarrow> Inl e | Inr x \<Rightarrow> f x)"

section \<open>The shape validator\<close>

text \<open>
  \<^verbatim>\<open>x.shape\<close>: the tuple \<^verbatim>\<open>(nrows, ncols)\<close> of an array, the static shape of a tensor.
  Indexing a shape of known rank out of range raises \<^verbatim>\<open>IndexError\<close>; indexing a shape of
  unknown rank gives an unknown dimension. Two dimensions compare equal only when both
  are known and the same number (the comparison with an unknown dimension is not true),
  and adding a number to an unknown dimension leaves it unknown.
\<close>

fun shape_attr :: "matrix \<Rightarrow> shape" where
  "shape_attr (NdArray x) = Some [Some (nrows x), Some (ncols x)]"
| "shape_attr (TfTensor t) = static_shape t"

definition shape_index :: "shape \<Rightarrow> nat \<Rightarrow> error + dim" where
  "shape_index s i =
     (case s of
        None \<Rightarrow> Inr None
      | Some ds \<Rightarrow> if i < length ds then Inr (ds ! i) else Inl IndexError)"

definition dim_eq :: "dim \<Rightarrow> dim \<Rightarrow> bool" where
  "dim_eq d e =
     (case d of
        None \<Rightarrow> False
      | Some x \<Rightarrow> (case e of None \<Rightarrow> False | Some y \<Rightarrow> x = y))"

definition dim_add :: "dim \<Rightarrow> nat \<Rightarrow> dim" where
  "dim_add d n = (case d of None \<Rightarrow> None | Some x \<Rightarrow> Some (x + n))"

text \<open>
  \<^verbatim>\<open>_check_shape\<close>. Python's \<^verbatim>\<open>or\<close> evaluates its operands from left to right and stops
  at the first true one, so a later clause is only indexed when the earlier ones are not
  true. \<^verbatim>\<open>int(use_bias)\<close> is 1 for \<^verbatim>\<open>True\<close> and 0 for \<^verbatim>\<open>False\<close>. The result is the truth
  value that the \<^verbatim>\<open>assert\<close> of the caller tests.
\<close>

definition check_shape :: "matrix \<Rightarrow> matrix \<Rightarrow> matrix \<Rightarrow> bool \<Rightarrow> error + bool" where
  "check_shape a u v use_bias =
     (let a_shape = shape_attr a; u_shape = shape_attr u; v_shape = shape_attr v in
      and_then (shape_index a_shape 0) (\<lambda>a0.
      and_then (shape_index u_shape 0) (\<lambda>u0.
      if dim_eq a0 u0 then Inr True else
      and_then (shape_index a_shape 1) (\<lambda>a1.
      and_then (shape_index v_shape 1) (\<lambda>v1.
      if dim_eq a1 v1 then Inr True else
      and_then (shape_index u_shape 1) (\<lambda>u1.
      and_then (shape_index v_shape 0) (\<lambda>v0.
      Inr (dim_eq u1 (dim_add v0 (if use_bias then 1 else 0))))))))))"

section \<open>Consumed facilities: solver kernels and the graph context\<close>

text \<open>
  The solver kernels live in the sibling modules \<^verbatim>\<open>np_nmf\<close> and \<^verbatim>\<open>np_biased_nmf\<close>. They
  are a parameter of everything below: a kernel table maps the imported function (module,
  name) to what it does when called with bound keyword arguments and the three operands
  \<^verbatim>\<open>a\<close>, \<^verbatim>\<open>u\<close>, \<^verbatim>\<open>v\<close>. A kernel either raises (the message is kept) or returns a pair.
\<close>

type_synonym kernels =
  "string \<times> string \<Rightarrow> (string \<times> pyval) list \<Rightarrow> matrix \<Rightarrow> matrix \<Rightarrow> matrix
     \<Rightarrow> string + matrix \<times> matrix"

text \<open>Calling a \<^verbatim>\<open>functools.partial\<close> object calls its function with the bound keywords.\<close>

definition call_partial ::
  "kernels \<Rightarrow> partial \<Rightarrow> matrix \<Rightarrow> matrix \<Rightarrow> matrix \<Rightarrow> error + matrix \<times> matrix" where
  "call_partial K f a u v =
     (case K (func f) (bound_kwargs f) a u v of
        Inl msg \<Rightarrow> Inl (SolverKernelError msg)
      | Inr r \<Rightarrow> Inr r)"

text \<open>\<^verbatim>\<open>x.T\<close> exists on arrays; a graph tensor has no such attribute.\<close>

fun T_attr :: "matrix \<Rightarrow> error + matrix" where
  "T_attr (NdArray x) = Inr (NdArray (transpose_nd x))"
| "T_attr (TfTensor t) = Inl AttributeError"

text \<open>
  Graph construction. An array handed to a graph operation becomes a constant of the same
  shape. \<^verbatim>\<open>tf.transpose\<close> reverses a known static shape. The outputs of \<^verbatim>\<open>tf.py_func\<close>
  have unknown static shape. \<^verbatim>\<open>tf.check_numerics\<close> keeps the shape of its input.
  \<^verbatim>\<open>t.set_shape(s)\<close> merges \<^verbatim>\<open>s\<close> into the static shape of \<^verbatim>\<open>t\<close>: an unknown shape or
  dimension takes the other one, and two known shapes of different rank, or two known
  dimensions that differ, raise \<^verbatim>\<open>ValueError\<close>.
\<close>

fun convert_to_tensor :: "matrix \<Rightarrow> tensor" where
  "convert_to_tensor (NdArray x) = Tensor (Constant x) (Some [Some (nrows x), Some (ncols x)])"
| "convert_to_tensor (TfTensor t) = t"

definition tf_transpose :: "matrix \<Rightarrow> tensor" where
  "tf_transpose x =
     (let t = convert_to_tensor x in Tensor (Transpose t) (map_option rev (static_shape t)))"

definition tf_py_func :: "partial \<Rightarrow> matrix \<Rightarrow> matrix \<Rightarrow> matrix \<Rightarrow> tensor \<times> tensor" where
  "tf_py_func f a u v =
     (let ta = convert_to_tensor a; tu = convert_to_tensor u; tv = convert_to_tensor v in
      (Tensor (PyFunc f ta tu tv 0) None, Tensor (PyFunc f ta tu tv 1) None))"

definition tf_check_numerics :: "tensor \<Rightarrow> string \<Rightarrow> tensor" where
  "tf_check_numerics t msg = Tensor (CheckNumerics t msg) (static_shape t)"

definition compatible_dim :: "dim \<Rightarrow> dim \<Rightarrow> bool" where
  "compatible_dim d e = (d = None \<or> e = None \<or> d = e)"

definition merge_dim :: "dim \<Rightarrow> dim \<Rightarrow> dim" where
  "merge_dim d e = (case d of None \<Rightarrow> e | Some x \<Rightarrow> Some x)"

definition set_shape :: "tensor \<Rightarrow> shape \<Rightarrow> error + tensor" where
  "set_shape t s =
     (case static_shape t of
        None \<Rightarrow> Inr (Tensor (producer t) s)
      | Some ds \<Rightarrow>
          (case s of
             None \<Rightarrow> Inr t
           | Some es \<Rightarrow>
               if length ds = length es \<and> list_all2 compatible_dim ds es
               then Inr (Tensor (producer t) (Some (map2 merge_dim ds es)))
               else Inl ValueError))"

text \<open>
  Computing the value of a tensor from the fed placeholders. The \<^verbatim>\<open>py_func\<close> node calls
  the bound solver on the values of its three inputs, positionally, and yields the output
  with the given index, which must be an array. \<^verbatim>\<open>check_numerics\<close> fails with its message
  when the value has a NaN or an infinite entry and passes the value on otherwise.
\<close>

fun as_array :: "matrix \<Rightarrow> error + ndarray" where
  "as_array (NdArray x) = Inr x"
| "as_array (TfTensor t) = Inl TypeError"

fun compute :: "kernels \<Rightarrow> (string \<Rightarrow> ndarray option) \<Rightarrow> tensor \<Rightarrow> error + ndarray"
  and compute_node :: "kernels \<Rightarrow> (string \<Rightarrow> ndarray option) \<Rightarrow> node \<Rightarrow> error + ndarray" where
  "compute K feed (Tensor n s) = compute_node K feed n"
| "compute_node K feed (Placeholder x) =
     (case feed x of None \<Rightarrow> Inl (FeedError x) | Some m \<Rightarrow> Inr m)"
| "compute_node K feed (Constant m) = Inr m"
| "compute_node K feed (Transpose t) = and_then (compute K feed t) (\<lambda>m. Inr (transpose_nd m))"
| "compute_node K feed (PyFunc f ta tu tv k) =
     and_then (compute K feed ta) (\<lambda>a.
     and_then (compute K feed tu) (\<lambda>u.
     and_then (compute K feed tv) (\<lambda>v.
     and_then (call_partial K f (NdArray a) (NdArray u) (NdArray v)) (\<lambda>(r0, r1).
     as_array (if k = 0 then r0 else r1)))))"
| "compute_node K feed (CheckNumerics t msg) =
     and_then (compute K feed t) (\<lambda>m.
     if has_nonfinite m then Inl (InvalidArgumentError msg) else Inr m)"

text \<open>
  Running the graph, as a session does with the tensors to fetch and the fed placeholders.
  Before any node is computed, every fed array is checked against the static shape of its
  placeholder: the shape of unknown rank accepts any array, a known shape must have rank
  two and each known dimension must be the array's; a feed that does not fit raises
  \<^verbatim>\<open>ValueError\<close>. \<open>run\<close> fetches one tensor and \<open>fetch\<close> the pair that an entry operation
  returns.
\<close>

fun placeholders :: "tensor \<Rightarrow> (string \<times> shape) list"
  and placeholders_node :: "shape \<Rightarrow> node \<Rightarrow> (string \<times> shape) list" where
  "placeholders (Tensor n s) = placeholders_node s n"
| "placeholders_node s (Placeholder x) = [(x, s)]"
| "placeholders_node s (Constant m) = []"
| "placeholders_node s (Transpose t) = placeholders t"
| "placeholders_node s (PyFunc f ta tu tv k) = placeholders ta @ placeholders tu @ placeholders tv"
| "placeholders_node s (CheckNumerics t msg) = placeholders t"

definition fits :: "ndarray \<Rightarrow> shape \<Rightarrow> bool" where
  "fits m s =
     (case s of
        None \<Rightarrow> True
      | Some ds \<Rightarrow> list_all2 compatible_dim ds [Some (nrows m), Some (ncols m)])"

definition feeds_fit :: "(string \<Rightarrow> ndarray option) \<Rightarrow> tensor \<Rightarrow> bool" where
  "feeds_fit feed t =
     list_all (\<lambda>(x, s). case feed x of None \<Rightarrow> True | Some m \<Rightarrow> fits m s) (placeholders t)"

definition run :: "kernels \<Rightarrow> (string \<Rightarrow> ndarray option) \<Rightarrow> tensor \<Rightarrow> error + ndarray" where
  "run K feed t = (if feeds_fit feed t then compute K feed t else Inl ValueError)"

definition fetch ::
  "kernels \<Rightarrow> (string \<Rightarrow> ndarray option) \<Rightarrow> tensor \<times> tensor \<Rightarrow> error + ndarray \<times> ndarray" where
  "fetch K feed ts =
     (if feeds_fit feed (fst ts) \<and> feeds_fit feed (snd ts)
      then and_then (compute K feed (fst ts)) (\<lambda>x.
           and_then (compute K feed (snd ts)) (\<lambda>y. Inr (x, y)))
      else Inl ValueError)"

section \<open>Parameters of the entry operations\<close>

text \<open>
  The three entry operations take keyword parameters. \<^verbatim>\<open>softmax_nmf\<close> has the common
  ones, \<^verbatim>\<open>semi_nmf\<close> adds \<^verbatim>\<open>first_nneg\<close>, \<^verbatim>\<open>nonlin_semi_nmf\<close> adds the two refinement
  counts as well.
\<close>

record common_params =
  use_bias :: bool
  use_tf :: bool
  data_format :: bool
  num_iters :: int
  rcond :: real
  eps :: real
  alpha :: real
  beta :: real

record linear_params = common_params +
  first_nneg :: bool

record nonlin_params = linear_params +
  num_calc_u :: int
  num_calc_v :: int

definition BATCH_FIRST :: bool where
  "BATCH_FIRST = True"

text \<open>
  What a call can be observed to do with the solver: import it, bind the hyper-parameters
  into a callable, invoke the callable on three operands.
\<close>

datatype event =
    Import "string \<times> string"
  | Bind partial
  | Invoke partial matrix matrix matrix

type_synonym outcome = "event list \<times> (error + matrix \<times> matrix)"

fun is_invoke :: "event \<Rightarrow> bool" where
  "is_invoke (Invoke f a u v) = True"
| "is_invoke (Import k) = False"
| "is_invoke (Bind f) = False"

section \<open>The linear entry operation\<close>

text \<open>The solver selection of \<^verbatim>\<open>semi_nmf\<close> (the branch on \<^verbatim>\<open>use_bias\<close>).\<close>

definition semi_nmf_solver :: "linear_params \<Rightarrow> partial" where
  "semi_nmf_solver p =
     (if use_bias p then
        \<lparr> func = (''np_biased_nmf'', ''semi_nmf''),
          bound_kwargs =
            [(''alpha'', PFloat (alpha p)), (''beta'', PFloat (beta p)),
             (''rcond'', PFloat (rcond p)), (''eps'', PFloat (eps p)),
             (''num_iters'', PInt (num_iters p)), (''first_nneg'', PBool (first_nneg p))] \<rparr>
      else
        \<lparr> func = (''np_nmf'', ''semi_nmf''),
          bound_kwargs =
            [(''rcond'', PFloat (rcond p)), (''eps'', PFloat (eps p)),
             (''num_iters'', PInt (num_iters p)), (''first_nneg'', PBool (first_nneg p))] \<rparr>)"

definition semi_nmf ::
  "kernels \<Rightarrow> linear_params \<Rightarrow> matrix \<Rightarrow> matrix \<Rightarrow> matrix \<Rightarrow> outcome" where
  "semi_nmf K p a u v =
     (case check_shape a u v (use_bias p) of
        Inl e \<Rightarrow> ([], Inl e)
      | Inr ok \<Rightarrow>
        if \<not> ok then ([], Inl AssertionError) else
        let f = semi_nmf_solver p; evs = [Import (func f), Bind f] in
        if is_ndarray a \<and> \<not> use_tf p then
          (if data_format p = BATCH_FIRST then
             (case and_then (T_attr a) (\<lambda>a_T.
                   and_then (T_attr v) (\<lambda>v_T.
                   and_then (T_attr u) (\<lambda>u_T. Inr (a_T, v_T, u_T)))) of
                Inl e \<Rightarrow> (evs, Inl e)
              | Inr (a_T, v_T, u_T) \<Rightarrow>
                  (evs @ [Invoke f a_T v_T u_T],
                   and_then (call_partial K f a_T v_T u_T) (\<lambda>(u_t, v_t).
                   and_then (T_attr v_t) (\<lambda>u'.
                   and_then (T_attr u_t) (\<lambda>v'. Inr (u', v'))))))
           else (evs @ [Invoke f a u v], call_partial K f a u v))
        else if use_tf p then
          (let u_shape = shape_attr u; v_shape = shape_attr v in
           if data_format p = BATCH_FIRST then
             (let a_t = tf_transpose a;
                  (tf_u_t, tf_v_t) =
                     tf_py_func f (TfTensor a_t) (TfTensor (tf_transpose v))
                       (TfTensor (tf_transpose u));
                  tf_u = tf_check_numerics (tf_transpose (TfTensor tf_v_t)) ''u'';
                  tf_v = tf_check_numerics (tf_transpose (TfTensor tf_u_t)) ''v''
              in (evs,
                  and_then (set_shape tf_u u_shape) (\<lambda>tf_u'.
                  and_then (set_shape tf_v v_shape) (\<lambda>tf_v'.
                  Inr (TfTensor tf_u', TfTensor tf_v')))))
           else
             (let (tf_u0, tf_v0) = tf_py_func f a u v;
                  tf_u = tf_check_numerics tf_u0 ''u'';
                  tf_v = tf_check_numerics tf_v0 ''v''
              in (evs,
                  and_then (set_shape tf_u u_shape) (\<lambda>tf_u'.
                  and_then (set_shape tf_v v_shape) (\<lambda>tf_v'.
                  Inr (TfTensor tf_u', TfTensor tf_v'))))))
        else (evs, Inl NotImplementedError))"

section \<open>The nonlinear entry operation\<close>

text \<open>The solver selection of \<^verbatim>\<open>nonlin_semi_nmf\<close>; it also binds the two refinement counts.\<close>

definition nonlin_semi_nmf_solver :: "nonlin_params \<Rightarrow> partial" where
  "nonlin_semi_nmf_solver p =
     (if use_bias p then
        \<lparr> func = (''np_biased_nmf'', ''nonlin_semi_nmf''),
          bound_kwargs =
            [(''alpha'', PFloat (alpha p)), (''beta'', PFloat (beta p)),
             (''rcond'', PFloat (rcond p)), (''eps'', PFloat (eps p)),
             (''num_iters'', PInt (num_iters p)),
             (''num_calc_u'', PInt (num_calc_u p)), (''num_calc_v'', PInt (num_calc_v p)),
             (''first_nneg'', PBool (first_nneg p))] \<rparr>
      else
        \<lparr> func = (''np_nmf'', ''nonlin_semi_nmf''),
          bound_kwargs =
            [(''rcond'', PFloat (rcond p)), (''eps'', PFloat (eps p)),
             (''num_iters'', PInt (num_iters p)),
             (''num_calc_u'', PInt (num_calc_u p)), (''num_calc_v'', PInt (num_calc_v p)),
             (''first_nneg'', PBool (first_nneg p))] \<rparr>)"

definition nonlin_semi_nmf ::
  "kernels \<Rightarrow> nonlin_params \<Rightarrow> matrix \<Rightarrow> matrix \<Rightarrow> matrix \<Rightarrow> outcome" where
  "nonlin_semi_nmf K p a u v =
     (case check_shape a u v (use_bias p) of
        Inl e \<Rightarrow> ([], Inl e)
      | Inr ok \<Rightarrow>
        if \<not> ok then ([], Inl AssertionError) else
        let f = nonlin_semi_nmf_solver p; evs = [Import (func f), Bind f] in
        if is_ndarray a \<and> \<not> use_tf p then
          (if data_format p = BATCH_FIRST then
             (case and_then (T_attr a) (\<lambda>a_T.
                   and_then (T_attr v) (\<lambda>v_T.
                   and_then (T_attr u) (\<lambda>u_T. Inr (a_T, v_T, u_T)))) of
                Inl e \<Rightarrow> (evs, Inl e)
              | Inr (a_T, v_T, u_T) \<Rightarrow>
                  (evs @ [Invoke f a_T v_T u_T],
                   and_then (call_partial K f a_T v_T u_T) (\<lambda>(u_t, v_t).
                   and_then (T_attr v_t) (\<lambda>u'.
                   and_then (T_attr u_t) (\<lambda>v'. Inr (u', v'))))))
           else (evs @ [Invoke f a u v], call_partial K f a u v))
        else if use_tf p then
          (let u_shape = shape_attr u; v_shape = shape_attr v in
           if data_format p = BATCH_FIRST then
             (let a_t = tf_transpose a;
                  (tf_u_t, tf_v_t) =
                     tf_py_func f (TfTensor a_t) (TfTensor (tf_transpose v))
                       (TfTensor (tf_transpose u));
                  tf_u = tf_check_numerics (tf_transpose (TfTensor tf_v_t)) ''u'';
                  tf_v = tf_check_numerics (tf_transpose (TfTensor tf_u_t)) ''v''
              in (evs,
                  and_then (set_shape tf_u u_shape) (\<lambda>tf_u'.
                  and_then (set_shape tf_v v_shape) (\<lambda>tf_v'.
                  Inr (TfTensor tf_u', TfTensor tf_v')))))
           else
             (let (tf_u0, tf_v0) = tf_py_func f a u v;
                  tf_u = tf_check_numerics tf_u0 ''u'';
                  tf_v = tf_check_numerics tf_v0 ''v''
              in (evs,
                  and_then (set_shape tf_u u_shape) (\<lambda>tf_u'.
                  and_then (set_shape tf_v v_shape) (\<lambda>tf_v'.
                  Inr (TfTensor tf_u', TfTensor tf_v'))))))
        else (evs, Inl NotImplementedError))"

section \<open>The softmax entry operation\<close>

text \<open>
  The solver selection of \<^verbatim>\<open>softmax_nmf\<close>. The body of \<^verbatim>\<open>softmax_nmf\<close> starts with it:
  there is no assertion on the shapes.
\<close>

definition softmax_nmf_solver :: "common_params \<Rightarrow> partial" where
  "softmax_nmf_solver p =
     (if use_bias p then
        \<lparr> func = (''np_biased_nmf'', ''softmax_nmf''),
          bound_kwargs =
            [(''alpha'', PFloat (alpha p)), (''beta'', PFloat (beta p)),
             (''rcond'', PFloat (rcond p)), (''eps'', PFloat (eps p)),
             (''num_iters'', PInt (num_iters p))] \<rparr>
      else
        \<lparr> func = (''np_nmf'', ''softmax_nmf''),
          bound_kwargs =
            [(''rcond'', PFloat (rcond p)), (''eps'', PFloat (eps p)),
             (''num_iters'', PInt (num_iters p))] \<rparr>)"

definition softmax_nmf ::
  "kernels \<Rightarrow> common_params \<Rightarrow> matrix \<Rightarrow> matrix \<Rightarrow> matrix \<Rightarrow> outcome" where
  "softmax_nmf K p a u v =
     (let f = softmax_nmf_solver p; evs = [Import (func f), Bind f] in
     if is_ndarray a \<and> \<not> use_tf p then
       (if data_format p = BATCH_FIRST then
          (case and_then (T_attr a) (\<lambda>a_T.
                and_then (T_attr v) (\<lambda>v_T.
                and_then (T_attr u) (\<lambda>u_T. Inr (a_T, v_T, u_T)))) of
             Inl e \<Rightarrow> (evs, Inl e)
           | Inr (a_T, v_T, u_T) \<Rightarrow>
               (evs @ [Invoke f a_T v_T u_T],
                and_then (call_partial K f a_T v_T u_T) (\<lambda>(u_t, v_t).
                and_then (T_attr v_t) (\<lambda>u'.
                and_then (T_attr u_t) (\<lambda>v'. Inr (u', v'))))))
        else (evs @ [Invoke f a u v], call_partial K f a u v))
     else if use_tf p then
       (let u_shape = shape_attr u; v_shape = shape_attr v in
        if data_format p = BATCH_FIRST then
          (let a_t = tf_transpose a;
               (tf_u_t, tf_v_t) =
                  tf_py_func f (TfTensor a_t) (TfTensor (tf_transpose v))
                    (TfTensor (tf_transpose u));
               tf_u = tf_check_numerics (tf_transpose (TfTensor tf_v_t)) ''u'';
               tf_v = tf_check_numerics (tf_transpose (TfTensor tf_u_t)) ''v''
           in (evs,
               and_then (set_shape tf_u u_shape) (\<lambda>tf_u'.
               and_then (set_shape tf_v v_shape) (\<lambda>tf_v'.
               Inr (TfTensor tf_u', TfTensor tf_v')))))
        else
          (let (tf_u0, tf_v0) = tf_py_func f a u v;
               tf_u = tf_check_numerics tf_u0 ''u'';
               tf_v = tf_check_numerics tf_v0 ''v''
           in (evs,
               and_then (set_shape tf_u u_shape) (\<lambda>tf_u'.
               and_then (set_shape tf_v v_shape) (\<lambda>tf_v'.
               Inr (TfTensor tf_u', TfTensor tf_v'))))))
     else (evs, Inl NotImplementedError))"

section \<open>Calling the entry operations with keyword arguments\<close>

text \<open>
  A call passes \<^verbatim>\<open>a\<close>, \<^verbatim>\<open>u\<close>, \<^verbatim>\<open>v\<close> and any of the eleven configuration fields by
  keyword. A field that is not given takes the default of the signature. A keyword that
  the called function does not declare is rejected by Python with a \<^verbatim>\<open>TypeError\<close> before
  the body runs: \<^verbatim>\<open>semi_nmf\<close> declares neither \<^verbatim>\<open>num_calc_u\<close> nor \<^verbatim>\<open>num_calc_v\<close>, and
  \<^verbatim>\<open>softmax_nmf\<close> declares neither of them nor \<^verbatim>\<open>first_nneg\<close>.
\<close>

record call_kwargs =
  kw_use_bias :: "bool option"
  kw_use_tf :: "bool option"
  kw_data_format :: "bool option"
  kw_first_nneg :: "bool option"
  kw_num_iters :: "int option"
  kw_num_calc_u :: "int option"
  kw_num_calc_v :: "int option"
  kw_rcond :: "real option"
  kw_eps :: "real option"
  kw_alpha :: "real option"
  kw_beta :: "real option"

definition given :: "'a \<Rightarrow> 'a option \<Rightarrow> 'a" where
  "given d x = (case x of None \<Rightarrow> d | Some y \<Rightarrow> y)"

definition bind_common :: "call_kwargs \<Rightarrow> common_params" where
  "bind_common kw =
     \<lparr> use_bias = given False (kw_use_bias kw),
       use_tf = given False (kw_use_tf kw),
       data_format = given BATCH_FIRST (kw_data_format kw),
       num_iters = given 1 (kw_num_iters kw),
       rcond = given (1 / 10 ^ 14) (kw_rcond kw),
       eps = given (1 / 10 ^ 15) (kw_eps kw),
       alpha = given (1 / 10 ^ 2) (kw_alpha kw),
       beta = given (1 / 10 ^ 2) (kw_beta kw) \<rparr>"

definition bind_linear :: "call_kwargs \<Rightarrow> linear_params" where
  "bind_linear kw =
     common_params.extend (bind_common kw)
       (linear_params.fields (given True (kw_first_nneg kw)))"

definition bind_nonlin :: "call_kwargs \<Rightarrow> nonlin_params" where
  "bind_nonlin kw =
     linear_params.extend (bind_linear kw)
       (nonlin_params.fields (given 1 (kw_num_calc_u kw)) (given 1 (kw_num_calc_v kw)))"

definition semi_nmf_call ::
  "kernels \<Rightarrow> matrix \<Rightarrow> matrix \<Rightarrow> matrix \<Rightarrow> call_kwargs \<Rightarrow> outcome" where
  "semi_nmf_call K a u v kw =
     (if kw_num_calc_u kw = None \<and> kw_num_calc_v kw = None
      then semi_nmf K (bind_linear kw) a u v
      else ([], Inl TypeError))"

definition nonlin_semi_nmf_call ::
  "kernels \<Rightarrow> matrix \<Rightarrow> matrix \<Rightarrow> matrix \<Rightarrow> call_kwargs \<Rightarrow> outcome" where
  "nonlin_semi_nmf_call K a u v kw = nonlin_semi_nmf K (bind_nonlin kw) a u v"

definition softmax_nmf_call ::
  "kernels \<Rightarrow> matrix \<Rightarrow> matrix \<Rightarrow> matrix \<Rightarrow> call_kwargs \<Rightarrow> outcome" where
  "softmax_nmf_call K a u v kw =
     (if kw_num_calc_u kw = None \<and> kw_num_calc_v kw = None \<and> kw_first_nneg kw = None
      then softmax_nmf K (bind_common kw) a u v
      else ([], Inl TypeError))"

section \<open>The dispatch code shared by the three entry operations\<close>

text \<open>
  After the solver is bound, the three functions end in the same text: the immediate
  branch (\<^verbatim>\<open>isinstance(a, np.ndarray) and not use_tf\<close>), the graph branch (\<^verbatim>\<open>use_tf\<close>) and
  the final \<^verbatim>\<open>raise NotImplementedError\<close>. The three parts are written once here, with the
  bound solver \<open>f\<close> as a parameter; below, each entry operation is shown to be its own
  precondition and solver selection followed by this code.
\<close>

definition immediate ::
  "kernels \<Rightarrow> partial \<Rightarrow> bool \<Rightarrow> matrix \<Rightarrow> matrix \<Rightarrow> matrix \<Rightarrow> outcome" where
  "immediate K f fmt a u v =
     (if fmt = BATCH_FIRST then
        (case and_then (T_attr a) (\<lambda>a_T.
              and_then (T_attr v) (\<lambda>v_T.
              and_then (T_attr u) (\<lambda>u_T. Inr (a_T, v_T, u_T)))) of
           Inl e \<Rightarrow> ([], Inl e)
         | Inr (a_T, v_T, u_T) \<Rightarrow>
             ([Invoke f a_T v_T u_T],
              and_then (call_partial K f a_T v_T u_T) (\<lambda>(u_t, v_t).
              and_then (T_attr v_t) (\<lambda>u'.
              and_then (T_attr u_t) (\<lambda>v'. Inr (u', v'))))))
      else ([Invoke f a u v], call_partial K f a u v))"

text \<open>The two outputs of the opaque node, as the graph branch wires them.\<close>

definition opaque_node :: "partial \<Rightarrow> bool \<Rightarrow> matrix \<Rightarrow> matrix \<Rightarrow> matrix \<Rightarrow> tensor \<times> tensor" where
  "opaque_node f fmt a u v =
     (if fmt = BATCH_FIRST
      then tf_py_func f (TfTensor (tf_transpose a)) (TfTensor (tf_transpose v))
             (TfTensor (tf_transpose u))
      else tf_py_func f a u v)"

definition deferred :: "partial \<Rightarrow> bool \<Rightarrow> matrix \<Rightarrow> matrix \<Rightarrow> matrix \<Rightarrow> outcome" where
  "deferred f fmt a u v =
     (let u_shape = shape_attr u; v_shape = shape_attr v;
          (out0, out1) = opaque_node f fmt a u v;
          tf_u = (if fmt = BATCH_FIRST
                  then tf_check_numerics (tf_transpose (TfTensor out1)) ''u''
                  else tf_check_numerics out0 ''u'');
          tf_v = (if fmt = BATCH_FIRST
                  then tf_check_numerics (tf_transpose (TfTensor out0)) ''v''
                  else tf_check_numerics out1 ''v'')
      in ([],
          and_then (set_shape tf_u u_shape) (\<lambda>tf_u'.
          and_then (set_shape tf_v v_shape) (\<lambda>tf_v'.
          Inr (TfTensor tf_u', TfTensor tf_v')))))"

definition dispatch ::
  "kernels \<Rightarrow> partial \<Rightarrow> bool \<Rightarrow> bool \<Rightarrow> matrix \<Rightarrow> matrix \<Rightarrow> matrix \<Rightarrow> outcome" where
  "dispatch K f tf fmt a u v =
     (if is_ndarray a \<and> \<not> tf then immediate K f fmt a u v
      else if tf then deferred f fmt a u v
      else ([], Inl NotImplementedError))"

definition after :: "event list \<Rightarrow> outcome \<Rightarrow> outcome" where
  "after evs r = (evs @ fst r, snd r)"

text \<open>
  What the opaque node yields when the graph is run: the pair the bound solver returns on
  the materialised operands.
\<close>

definition kernel_output ::
  "kernels \<Rightarrow> (string \<Rightarrow> ndarray option) \<Rightarrow> partial \<Rightarrow> bool \<Rightarrow> matrix \<Rightarrow> matrix \<Rightarrow> matrix
     \<Rightarrow> error + ndarray \<times> ndarray" where
  "kernel_output K feed f fmt a u v =
     and_then (run K feed (fst (opaque_node f fmt a u v))) (\<lambda>r0.
     and_then (run K feed (snd (opaque_node f fmt a u v))) (\<lambda>r1. Inr (r0, r1)))"

text \<open>
  The tensors that the two \<^verbatim>\<open>check_numerics\<close> nodes of the graph branch guard: the
  returned \<^verbatim>\<open>u\<close> is taken from the second output of the opaque node and the returned
  \<^verbatim>\<open>v\<close> from the first (each transposed) in batch-first format, and from the first and
  the second output as they are otherwise.
\<close>

definition gated_u :: "partial \<Rightarrow> bool \<Rightarrow> matrix \<Rightarrow> matrix \<Rightarrow> matrix \<Rightarrow> tensor" where
  "gated_u f fmt a u v =
     (if fmt = BATCH_FIRST
      then tf_transpose (TfTensor (snd (opaque_node f fmt a u v)))
      else fst (opaque_node f fmt a u v))"

definition gated_v :: "partial \<Rightarrow> bool \<Rightarrow> matrix \<Rightarrow> matrix \<Rightarrow> matrix \<Rightarrow> tensor" where
  "gated_v f fmt a u v =
     (if fmt = BATCH_FIRST
      then tf_transpose (TfTensor (fst (opaque_node f fmt a u v)))
      else snd (opaque_node f fmt a u v))"

section \<open>The three entry operations as one family\<close>

text \<open>
  A statement about every entry operation ranges over the three functions with their own
  parameter records. \<open>entry\<close> calls the function a variant stands for; \<open>solver_of\<close> is the
  callable that function binds, \<open>config\<close> the parameters all three have in common, and
  \<open>asserts_shape\<close> tells whether its body starts with \<^verbatim>\<open>assert _check_shape(...)\<close>.
\<close>

datatype variant = Linear linear_params | Nonlinear nonlin_params | Softmax common_params

fun entry :: "kernels \<Rightarrow> variant \<Rightarrow> matrix \<Rightarrow> matrix \<Rightarrow> matrix \<Rightarrow> outcome" where
  "entry K (Linear p) a u v = semi_nmf K p a u v"
| "entry K (Nonlinear p) a u v = nonlin_semi_nmf K p a u v"
| "entry K (Softmax p) a u v = softmax_nmf K p a u v"

fun solver_of :: "variant \<Rightarrow> partial" where
  "solver_of (Linear p) = semi_nmf_solver p"
| "solver_of (Nonlinear p) = nonlin_semi_nmf_solver p"
| "solver_of (Softmax p) = softmax_nmf_solver p"

fun config :: "variant \<Rightarrow> common_params" where
  "config (Linear p) = common_params.truncate p"
| "config (Nonlinear p) = common_params.truncate p"
| "config (Softmax p) = p"

fun asserts_shape :: "variant \<Rightarrow> bool" where
  "asserts_shape (Linear p) = True"
| "asserts_shape (Nonlinear p) = True"
| "asserts_shape (Softmax p) = False"

text \<open>The call gets past the assertion of the variant, if the variant has one.\<close>

definition precondition_ok :: "variant \<Rightarrow> matrix \<Rightarrow> matrix \<Rightarrow> matrix \<Rightarrow> bool" where
  "precondition_ok var a u v =
     (if asserts_shape var then check_shape a u v (use_bias (config var)) = Inr True else True)"

text \<open>The events of importing and binding the solver of a variant.\<close>

definition bound :: "variant \<Rightarrow> event list" where
  "bound var = [Import (func (solver_of var)), Bind (solver_of var)]"

section \<open>Concrete operands and solver stubs for the worked examples\<close>

definition A23 :: ndarray where
  "A23 = \<lparr> nrows = 2, ncols = 3,
           rows = [[Fin 1, Fin 2, Fin 3], [Fin 4, Fin 5, Fin 6]] \<rparr>"

definition U21 :: ndarray where
  "U21 = \<lparr> nrows = 2, ncols = 1, rows = [[Fin 1], [Fin 2]] \<rparr>"

definition V13 :: ndarray where
  "V13 = \<lparr> nrows = 1, ncols = 3, rows = [[Fin 7, NaN, Fin (-1)]] \<rparr>"

text \<open>Three shapes none of whose agreements hold: [2,3], [1,1] and [3,2].\<close>

definition U11 :: ndarray where
  "U11 = \<lparr> nrows = 1, ncols = 1, rows = [[Fin 1]] \<rparr>"

definition V32 :: ndarray where
  "V32 = \<lparr> nrows = 3, ncols = 2, rows = [[Fin 1, Fin 2], [Fin 3, Fin 4], [Fin 5, Fin 6]] \<rparr>"

text \<open>A placeholder for batches of any size with three columns: static shape [?,3].\<close>

definition Pb3 :: tensor where
  "Pb3 = Tensor (Placeholder ''a'') (Some [None, Some 3])"

text \<open>A stub that does no solving: it hands back the two factors it was given.\<close>

definition echo_kernel :: kernels where
  "echo_kernel k kw a u v = Inr (u, v)"

text \<open>A stub whose first output has a NaN entry, whatever it is given.\<close>

definition X31 :: ndarray where
  "X31 = \<lparr> nrows = 3, ncols = 1, rows = [[Fin 1], [NaN], [Fin 3]] \<rparr>"

definition Y12 :: ndarray where
  "Y12 = \<lparr> nrows = 1, ncols = 2, rows = [[Fin 8, Fin 9]] \<rparr>"

definition nan_kernel :: kernels where
  "nan_kernel k kw a u v = Inr (NdArray X31, NdArray Y12)"

definition no_feed :: "string \<Rightarrow> ndarray option" where
  "no_feed x = None"

text \<open>Feeding the placeholder \<^verbatim>\<open>a\<close> with the 2-by-3 array, and with the 3-by-2 one.\<close>

definition feed_A23 :: "string \<Rightarrow> ndarray option" where
  "feed_A23 x = (if x = ''a'' then Some A23 else None)"

definition feed_V32 :: "string \<Rightarrow> ndarray option" where
  "feed_V32 x = (if x = ''a'' then Some V32 else None)"

definition defaults :: call_kwargs where
  "defaults =
     \<lparr> kw_use_bias = None, kw_use_tf = None, kw_data_format = None, kw_first_nneg = None,
       kw_num_iters = None, kw_num_calc_u = None, kw_num_calc_v = None, kw_rcond = None,
       kw_eps = None, kw_alpha = None, kw_beta = None \<rparr>"

section \<open>Properties of the shape validator\<close>

lemma shape_index_two:
  "shape_index (Some [r, c]) 0 = Inr r"
  "shape_index (Some [r, c]) 1 = Inr c"
  "shape_index (Some [r, c]) (Suc 0) = Inr c"
  by (simp_all add: shape_index_def)

lemma dim_simps:
  "dim_eq (Some x) (Some y) = (x = y)"
  "dim_eq None e = False"
  "dim_eq d None = False"
  "dim_add (Some x) n = Some (x + n)"
  "dim_add None n = None"
  by (simp_all add: dim_eq_def dim_add_def split: option.splits)

lemma and_then_simps:
  "and_then (Inl e) f = Inl e" "and_then (Inr x) f = f x"
  by (simp_all add: and_then_def)

text \<open>
  Claim C2. For inputs that carry a two-dimensional shape descriptor, the shape validator
  returns true exactly when at least one of the three agreements holds: rows of A equal
  rows of U, or columns of A equal columns of V, or columns of U equal rows of V plus one
  if bias is used (plus zero otherwise). It is an inclusive or: one agreement is enough,
  and the answer is false only when all three fail.
\<close>

theorem check_shape_inclusive_or:
  assumes "shape_attr a = Some [Some ra, Some ca]"
    and "shape_attr u = Some [Some ru, Some cu]"
    and "shape_attr v = Some [Some rv, Some cv]"
  shows "check_shape a u v bias =
           Inr (ra = ru \<or> ca = cv \<or> cu = rv + (if bias then 1 else 0))"
  using assms by (auto simp add: check_shape_def Let_def and_then_simps shape_index_two dim_simps)

theorem check_shape_inclusive_or_witness:
  "shape_attr (NdArray A23) = Some [Some 2, Some 3]
   \<and> shape_attr (NdArray U21) = Some [Some 2, Some 1]
   \<and> shape_attr (NdArray V32) = Some [Some 3, Some 2]
   \<and> check_shape (NdArray A23) (NdArray U21) (NdArray V32) False = Inr True
   \<and> shape_attr (NdArray U11) = Some [Some 1, Some 1]
   \<and> check_shape (NdArray A23) (NdArray U11) (NdArray V32) False = Inr False"
  using check_shape_inclusive_or [of "NdArray A23" 2 3 "NdArray U21" 2 1 "NdArray V32" 3 2 False]
    check_shape_inclusive_or [of "NdArray A23" 2 3 "NdArray U11" 1 1 "NdArray V32" 3 2 False]
  by (simp add: A23_def U21_def V32_def U11_def)

section \<open>Transposition\<close>

lemma wf_transpose_nd: "wf_ndarray (transpose_nd m)"
  by (simp add: wf_ndarray_def transpose_nd_def list_all_iff)

lemma transpose_nd_involutive:
  assumes "wf_ndarray m"
  shows "transpose_nd (transpose_nd m) = m"
proof -
  have len: "length (rows m) = nrows m"
    and row: "\<And>i. i < nrows m \<Longrightarrow> length (rows m ! i) = ncols m"
    using assms by (auto simp add: wf_ndarray_def list_all_iff)
  have "rows (transpose_nd (transpose_nd m)) = rows m"
  proof (rule nth_equalityI)
    show "length (rows (transpose_nd (transpose_nd m))) = length (rows m)"
      using len by (simp add: transpose_nd_def)
  next
    fix i assume "i < length (rows (transpose_nd (transpose_nd m)))"
    then have i: "i < nrows m" by (simp add: transpose_nd_def)
    show "rows (transpose_nd (transpose_nd m)) ! i = rows m ! i"
    proof (rule nth_equalityI)
      show "length (rows (transpose_nd (transpose_nd m)) ! i) = length (rows m ! i)"
        using i row [OF i] by (simp add: transpose_nd_def)
    next
      fix j assume "j < length (rows (transpose_nd (transpose_nd m)) ! i)"
      then have "j < ncols m" using i by (simp add: transpose_nd_def)
      then show "rows (transpose_nd (transpose_nd m)) ! i ! j = rows m ! i ! j"
        using i by (simp add: transpose_nd_def)
    qed
  qed
  moreover have "nrows (transpose_nd (transpose_nd m)) = nrows m"
    and "ncols (transpose_nd (transpose_nd m)) = ncols m"
    by (simp_all add: transpose_nd_def)
  ultimately show ?thesis by simp
qed

lemma has_nonfinite_transpose_nd: "has_nonfinite (transpose_nd m) = has_nonfinite m"
  by (auto simp add: has_nonfinite_def transpose_nd_def list_ex_iff)

lemma has_nonfinite_wf:
  assumes "wf_ndarray m"
  shows "has_nonfinite m = (\<exists>r\<in>set (rows m). \<exists>x\<in>set r. \<not> isfinite x)"
proof -
  have len: "length (rows m) = nrows m"
    and row: "\<And>i. i < nrows m \<Longrightarrow> length (rows m ! i) = ncols m"
    using assms by (auto simp add: wf_ndarray_def list_all_iff)
  have "has_nonfinite m = (\<exists>i<nrows m. \<exists>j<ncols m. \<not> isfinite (rows m ! i ! j))"
    unfolding has_nonfinite_def list_ex_iff by (simp add: Bex_def)
  also have "\<dots> = (\<exists>i<length (rows m). \<exists>j<length (rows m ! i). \<not> isfinite (rows m ! i ! j))"
    using row by (simp add: len cong: conj_cong)
  also have "\<dots> = (\<exists>r\<in>set (rows m). \<exists>x\<in>set r. \<not> isfinite x)"
    unfolding Bex_def in_set_conv_nth by blast
  finally show ?thesis .
qed

section \<open>Each entry operation is its precondition, its solver and the shared dispatch\<close>

lemma truncate_fields:
  "use_bias (common_params.truncate p) = use_bias p"
  "use_tf (common_params.truncate p) = use_tf p"
  "data_format (common_params.truncate p) = data_format p"
  by (simp_all add: common_params.truncate_def)

lemma after_pair: "after evs (l, r) = (evs @ l, r)"
  by (simp add: after_def)

lemma semi_nmf_unfold:
  "semi_nmf K p a u v =
     (case check_shape a u v (use_bias p) of
        Inl e \<Rightarrow> ([], Inl e)
      | Inr ok \<Rightarrow>
          if ok then after [Import (func (semi_nmf_solver p)), Bind (semi_nmf_solver p)]
                       (dispatch K (semi_nmf_solver p) (use_tf p) (data_format p) a u v)
          else ([], Inl AssertionError))"
  by (simp add: semi_nmf_def dispatch_def immediate_def deferred_def opaque_node_def after_def Let_def
      split: sum.splits prod.splits)

lemma nonlin_semi_nmf_unfold:
  "nonlin_semi_nmf K p a u v =
     (case check_shape a u v (use_bias p) of
        Inl e \<Rightarrow> ([], Inl e)
      | Inr ok \<Rightarrow>
          if ok then after [Import (func (nonlin_semi_nmf_solver p)), Bind (nonlin_semi_nmf_solver p)]
                       (dispatch K (nonlin_semi_nmf_solver p) (use_tf p) (data_format p) a u v)
          else ([], Inl AssertionError))"
  by (simp add: nonlin_semi_nmf_def dispatch_def immediate_def deferred_def opaque_node_def after_def Let_def
      split: sum.splits prod.splits)

lemma softmax_nmf_unfold:
  "softmax_nmf K p a u v =
     after [Import (func (softmax_nmf_solver p)), Bind (softmax_nmf_solver p)]
       (dispatch K (softmax_nmf_solver p) (use_tf p) (data_format p) a u v)"
  by (simp add: softmax_nmf_def dispatch_def immediate_def deferred_def opaque_node_def after_def Let_def
      split: sum.splits prod.splits)

lemma entry_unfold:
  "entry K var a u v =
     (if asserts_shape var then
        (case check_shape a u v (use_bias (config var)) of
           Inl e \<Rightarrow> ([], Inl e)
         | Inr ok \<Rightarrow>
             if ok then after (bound var)
                          (dispatch K (solver_of var) (use_tf (config var))
                             (data_format (config var)) a u v)
             else ([], Inl AssertionError))
      else after (bound var)
             (dispatch K (solver_of var) (use_tf (config var)) (data_format (config var)) a u v))"
  by (cases var)
     (simp_all add: semi_nmf_unfold nonlin_semi_nmf_unfold softmax_nmf_unfold truncate_fields
        bound_def split: sum.splits)

lemma entry_dispatch:
  "precondition_ok var a u v \<Longrightarrow>
   entry K var a u v =
     after (bound var)
       (dispatch K (solver_of var) (use_tf (config var)) (data_format (config var)) a u v)"
  by (simp add: entry_unfold precondition_ok_def)

lemma shape_index_error: "shape_index s i = Inl e \<Longrightarrow> e = IndexError"
  by (simp add: shape_index_def split: option.splits if_splits)

lemma and_then_eq_Inl:
  "(and_then r g = Inl e) = (r = Inl e \<or> (\<exists>x. r = Inr x \<and> g x = Inl e))"
  by (cases r) (simp_all add: and_then_simps)

lemma check_shape_error:
  assumes "check_shape a u v b = Inl e"
  shows "e = IndexError"
  using assms
  by (auto simp add: check_shape_def Let_def and_then_eq_Inl split: if_splits
      dest: shape_index_error)

lemma opaque_node_unknown:
  "static_shape (fst (opaque_node f fmt a u v)) = None"
  "static_shape (snd (opaque_node f fmt a u v)) = None"
  by (simp_all add: opaque_node_def tf_py_func_def Let_def)

lemma deferred_eq:
  "deferred f fmt a u v =
     ([], Inr (TfTensor (Tensor (CheckNumerics (gated_u f fmt a u v) ''u'') (shape_attr u)),
               TfTensor (Tensor (CheckNumerics (gated_v f fmt a u v) ''v'') (shape_attr v))))"
  by (simp add: deferred_def gated_u_def gated_v_def Let_def split_beta tf_check_numerics_def
      tf_transpose_def opaque_node_unknown set_shape_def and_then_simps)

section \<open>The dispatch code never raises the assertion of the precondition\<close>

lemma call_partial_not_assertion: "call_partial K f a u v \<noteq> Inl AssertionError"
  by (simp add: call_partial_def split: sum.splits)

lemma T_attr_not_assertion: "T_attr x \<noteq> Inl AssertionError"
  by (cases x) simp_all

lemma and_then_not_assertion:
  assumes "r \<noteq> Inl AssertionError" and "\<And>x. f x \<noteq> Inl AssertionError"
  shows "and_then r f \<noteq> Inl AssertionError"
  using assms by (cases r) (simp_all add: and_then_simps)

lemma immediate_not_assertion: "snd (immediate K f fmt a u v) \<noteq> Inl AssertionError"
proof (cases "fmt = BATCH_FIRST")
  case False
  then show ?thesis by (simp add: immediate_def call_partial_not_assertion)
next
  case True
  have ret: "and_then (call_partial K f x y z) (\<lambda>(u_t, v_t).
                and_then (T_attr v_t) (\<lambda>u'. and_then (T_attr u_t) (\<lambda>v'. Inr (u', v'))))
              \<noteq> Inl AssertionError" for x y z
    by (intro and_then_not_assertion call_partial_not_assertion)
       (simp_all add: split_beta and_then_not_assertion T_attr_not_assertion)
  show ?thesis
    using True ret
    by (cases a; cases u; cases v) (simp_all add: immediate_def and_then_simps)
qed

lemma dispatch_not_assertion: "snd (dispatch K f tf fmt a u v) \<noteq> Inl AssertionError"
  by (simp add: dispatch_def immediate_not_assertion deferred_eq)


section \<open>Running the graph branch\<close>

lemma feeds_fit_simps:
  "feeds_fit feed (Tensor (CheckNumerics t msg) s) = feeds_fit feed t"
  "feeds_fit feed (Tensor (Transpose t) s) = feeds_fit feed t"
  "feeds_fit feed (Tensor (Constant m) s) = True"
  "feeds_fit feed (Tensor (PyFunc f ta tu tv k) s) =
     (feeds_fit feed ta \<and> feeds_fit feed tu \<and> feeds_fit feed tv)"
  by (simp_all add: feeds_fit_def)

lemma run_check_numerics:
  "run K feed (Tensor (CheckNumerics t msg) s) =
     and_then (run K feed t)
       (\<lambda>m. if has_nonfinite m then Inl (InvalidArgumentError msg) else Inr m)"
  by (simp add: run_def feeds_fit_simps and_then_simps)

lemma run_check_numerics_finite:
  "run K feed (Tensor (CheckNumerics t msg) s) = Inr x \<Longrightarrow> \<not> has_nonfinite x"
  unfolding run_check_numerics
  by (cases "run K feed t") (auto simp add: and_then_simps split: if_splits)

lemma kernel_output_parts:
  assumes "kernel_output K feed f fmt a u v = Inr (ku, kv)"
  shows "run K feed (fst (opaque_node f fmt a u v)) = Inr ku"
    and "run K feed (snd (opaque_node f fmt a u v)) = Inr kv"
  using assms
  by (auto simp add: kernel_output_def and_then_def split: sum.splits)

lemma run_tf_transpose:
  "run K feed (tf_transpose (TfTensor t)) =
     and_then (run K feed t) (\<lambda>m. Inr (transpose_nd m))"
  by (simp add: tf_transpose_def run_def feeds_fit_simps and_then_simps)

lemma run_gated:
  assumes "kernel_output K feed f fmt a u v = Inr (ku, kv)"
  shows "run K feed (gated_u f fmt a u v) =
           Inr (if fmt = BATCH_FIRST then transpose_nd kv else ku)"
    and "run K feed (gated_v f fmt a u v) =
           Inr (if fmt = BATCH_FIRST then transpose_nd ku else kv)"
  using kernel_output_parts [OF assms]
  by (cases "fmt = BATCH_FIRST"; simp add: gated_u_def gated_v_def run_tf_transpose and_then_simps)+

lemma immediate_batch_first:
  assumes "call_partial K f (NdArray (transpose_nd A)) (NdArray (transpose_nd V))
             (NdArray (transpose_nd U)) = Inr (NdArray ku, NdArray kv)"
  shows "snd (immediate K f BATCH_FIRST (NdArray A) (NdArray U) (NdArray V)) =
           Inr (NdArray (transpose_nd kv), NdArray (transpose_nd ku))"
  using assms by (simp add: immediate_def and_then_simps)

lemma transpose_nd_entry:
  "i < nrows m \<Longrightarrow> j < ncols m \<Longrightarrow> rows (transpose_nd m) ! j ! i = rows m ! i ! j"
  by (simp add: transpose_nd_def)

lemma run_fits: "run K feed t = Inr x \<Longrightarrow> feeds_fit feed t"
  by (simp add: run_def split: if_splits)

lemma feeds_fit_opaque:
  "feeds_fit feed (snd (opaque_node f fmt a u v)) = feeds_fit feed (fst (opaque_node f fmt a u v))"
  by (simp add: opaque_node_def tf_py_func_def Let_def feeds_fit_simps)

lemma feeds_fit_gated:
  "feeds_fit feed (gated_u f fmt a u v) = feeds_fit feed (fst (opaque_node f fmt a u v))"
  "feeds_fit feed (gated_v f fmt a u v) = feeds_fit feed (fst (opaque_node f fmt a u v))"
  by (simp_all add: gated_u_def gated_v_def tf_transpose_def Let_def feeds_fit_simps
      feeds_fit_opaque)

lemma fetch_run:
  assumes "feeds_fit feed tu" and "feeds_fit feed tv"
  shows "fetch K feed (tu, tv) =
           and_then (run K feed tu) (\<lambda>x. and_then (run K feed tv) (\<lambda>y. Inr (x, y)))"
  using assms by (simp add: fetch_def run_def)

lemma fetch_parts:
  assumes "fetch K feed (tu, tv) = Inr (x, y)"
  shows "run K feed tu = Inr x" and "run K feed tv = Inr y"
proof -
  from assms have fit: "feeds_fit feed tu \<and> feeds_fit feed tv"
    by (simp add: fetch_def split: if_splits)
  with assms have "and_then (run K feed tu) (\<lambda>x. and_then (run K feed tv) (\<lambda>y. Inr (x, y)))
                   = Inr (x, y)"
    by (simp add: fetch_run)
  then show "run K feed tu = Inr x" and "run K feed tv = Inr y"
    by (auto simp add: and_then_def split: sum.splits)
qed

text \<open>The gate of the graph branch, for any bound solver.\<close>

lemma gate_never_leaks:
  "(\<forall>x. run K feed (Tensor (CheckNumerics (gated_u f fmt a u v) ''u'') su) = Inr x
        \<longrightarrow> \<not> has_nonfinite x)
   \<and> (\<forall>x. run K feed (Tensor (CheckNumerics (gated_v f fmt a u v) ''v'') sv) = Inr x
        \<longrightarrow> \<not> has_nonfinite x)
   \<and> (\<forall>x y. fetch K feed (Tensor (CheckNumerics (gated_u f fmt a u v) ''u'') su,
                         Tensor (CheckNumerics (gated_v f fmt a u v) ''v'') sv) = Inr (x, y)
        \<longrightarrow> \<not> has_nonfinite x \<and> \<not> has_nonfinite y)"
  (is "(\<forall>x. run K feed ?tu = Inr x \<longrightarrow> _) \<and> (\<forall>x. run K feed ?tv = Inr x \<longrightarrow> _) \<and> _")
proof -
  have u: "\<forall>x. run K feed ?tu = Inr x \<longrightarrow> \<not> has_nonfinite x"
    using run_check_numerics_finite by blast
  have v: "\<forall>x. run K feed ?tv = Inr x \<longrightarrow> \<not> has_nonfinite x"
    using run_check_numerics_finite by blast
  have "\<forall>x y. fetch K feed (?tu, ?tv) = Inr (x, y) \<longrightarrow> \<not> has_nonfinite x \<and> \<not> has_nonfinite y"
    using u v fetch_parts by blast
  with u v show ?thesis by blast
qed

lemma gate_fails:
  assumes ko: "kernel_output K feed f fmt a u v = Inr (ku, kv)"
  shows "(has_nonfinite (if fmt = BATCH_FIRST then kv else ku)
           \<longrightarrow> run K feed (Tensor (CheckNumerics (gated_u f fmt a u v) ''u'') su)
                 = Inl (InvalidArgumentError ''u''))
       \<and> (has_nonfinite (if fmt = BATCH_FIRST then ku else kv)
           \<longrightarrow> run K feed (Tensor (CheckNumerics (gated_v f fmt a u v) ''v'') sv)
                 = Inl (InvalidArgumentError ''v''))
       \<and> (has_nonfinite ku \<or> has_nonfinite kv
           \<longrightarrow> (\<exists>msg. fetch K feed (Tensor (CheckNumerics (gated_u f fmt a u v) ''u'') su,
                                    Tensor (CheckNumerics (gated_v f fmt a u v) ''v'') sv)
                        = Inl (InvalidArgumentError msg)))"
  (is "(_ \<longrightarrow> run K feed ?tu = _) \<and> (_ \<longrightarrow> run K feed ?tv = _) \<and> _")
proof -
  let ?gu = "if fmt = BATCH_FIRST then transpose_nd kv else ku"
  let ?gv = "if fmt = BATCH_FIRST then transpose_nd ku else kv"
  have ru: "run K feed ?tu = (if has_nonfinite ?gu then Inl (InvalidArgumentError ''u'') else Inr ?gu)"
    unfolding run_check_numerics run_gated(1) [OF ko] by (simp add: and_then_simps)
  have rv: "run K feed ?tv = (if has_nonfinite ?gv then Inl (InvalidArgumentError ''v'') else Inr ?gv)"
    unfolding run_check_numerics run_gated(2) [OF ko] by (simp add: and_then_simps)
  have 1: "has_nonfinite (if fmt = BATCH_FIRST then kv else ku)
           \<longrightarrow> run K feed ?tu = Inl (InvalidArgumentError ''u'')"
    using ru by (simp add: has_nonfinite_transpose_nd split: if_splits)
  have 2: "has_nonfinite (if fmt = BATCH_FIRST then ku else kv)
           \<longrightarrow> run K feed ?tv = Inl (InvalidArgumentError ''v'')"
    using rv by (simp add: has_nonfinite_transpose_nd split: if_splits)
  have "feeds_fit feed (fst (opaque_node f fmt a u v))"
    using kernel_output_parts(1) [OF ko] by (rule run_fits)
  then have "feeds_fit feed ?tu" and "feeds_fit feed ?tv"
    by (simp_all add: feeds_fit_simps feeds_fit_gated)
  then have fe: "fetch K feed (?tu, ?tv) =
                   and_then (run K feed ?tu) (\<lambda>x. and_then (run K feed ?tv) (\<lambda>y. Inr (x, y)))"
    by (rule fetch_run)
  have 3: "has_nonfinite ku \<or> has_nonfinite kv
           \<longrightarrow> (\<exists>msg. fetch K feed (?tu, ?tv) = Inl (InvalidArgumentError msg))"
  proof
    assume "has_nonfinite ku \<or> has_nonfinite kv"
    then have "has_nonfinite ?gu \<or> has_nonfinite ?gv"
      by (auto simp add: has_nonfinite_transpose_nd)
    then show "\<exists>msg. fetch K feed (?tu, ?tv) = Inl (InvalidArgumentError msg)"
      unfolding fe ru rv by (auto simp add: and_then_simps)
  qed
  from 1 2 3 show ?thesis by blast
qed

section \<open>Evaluating the worked examples\<close>

lemmas ex_defs = A23_def U21_def V13_def U11_def V32_def Pb3_def X31_def Y12_def
  echo_kernel_def nan_kernel_def no_feed_def feed_A23_def defaults_def

lemmas bind_defs = bind_linear_def bind_common_def bind_nonlin_def given_def
  common_params.defs linear_params.defs nonlin_params.defs BATCH_FIRST_def

lemma has_nonfinite_X31: "has_nonfinite X31"
  by (simp add: has_nonfinite_wf wf_ndarray_def X31_def)

lemma ill_shaped_feed_rejected:
  "run K feed_V32 (tf_transpose (TfTensor Pb3)) = Inl ValueError"
  by (simp add: run_def feeds_fit_def fits_def compatible_dim_def tf_transpose_def
      Pb3_def feed_V32_def V32_def)

section \<open>Properties of the entry operations\<close>

text \<open>
  Claim C1. Orientation round trip. For arrays A, U, V with as many rows in A as in U, the
  batch-first immediate path hands the solver the transposed A, the transposed V in the
  role of the left factor and the transposed U in the role of the right factor. With a
  solver that does no solving and returns the two factors as it received them, swapping
  back and transposing back returns (U, V) themselves, entry by entry. This holds for each
  of the three entry operations.
\<close>

theorem orientation_round_trip:
  assumes "wf_ndarray U" and "wf_ndarray V" and "nrows A = nrows U"
    and "data_format (config var) = BATCH_FIRST" and "\<not> use_tf (config var)"
  shows "entry echo_kernel var (NdArray A) (NdArray U) (NdArray V) =
           (bound var @
              [Invoke (solver_of var) (NdArray (transpose_nd A)) (NdArray (transpose_nd V))
                 (NdArray (transpose_nd U))],
            Inr (NdArray U, NdArray V))"
proof -
  have "check_shape (NdArray A) (NdArray U) (NdArray V) b = Inr True" for b
    using assms(3) by (simp add: check_shape_def shape_index_two and_then_simps dim_simps)
  then have "precondition_ok var (NdArray A) (NdArray U) (NdArray V)"
    by (simp add: precondition_ok_def)
  then show ?thesis
    using assms
    by (simp add: entry_dispatch dispatch_def immediate_def after_def and_then_simps
        call_partial_def echo_kernel_def transpose_nd_involutive)
qed

theorem orientation_round_trip_witness:
  "wf_ndarray U21 \<and> wf_ndarray V13 \<and> nrows A23 = nrows U21
   \<and> data_format (config (Linear (bind_linear defaults))) = BATCH_FIRST
   \<and> \<not> use_tf (config (Linear (bind_linear defaults)))
   \<and> snd (entry echo_kernel (Linear (bind_linear defaults)) (NdArray A23) (NdArray U21)
             (NdArray V13))
       = Inr (NdArray U21, NdArray V13)"
  using orientation_round_trip [of U21 V13 A23 "Linear (bind_linear defaults)"]
  by (simp add: wf_ndarray_def ex_defs bind_defs)

text \<open>
  Claim C4. Shape re-attachment. A call on the graph backend that gets past the shape
  precondition returns two graph tensors; the static shape of the returned u is the shape
  recorded from the input u, and the static shape of the returned v is the shape recorded
  from the input v. The two outputs of the opaque solver node, and the checked tensors
  derived from them, have unknown static shape before that.
\<close>

theorem shape_reattachment:
  assumes "precondition_ok var a u v" and "use_tf (config var)"
  shows "\<exists>tu tv. snd (entry K var a u v) = Inr (TfTensor tu, TfTensor tv)
           \<and> static_shape tu = shape_attr u \<and> static_shape tv = shape_attr v
           \<and> producer tu = CheckNumerics (gated_u (solver_of var) (data_format (config var)) a u v) ''u''
           \<and> producer tv = CheckNumerics (gated_v (solver_of var) (data_format (config var)) a u v) ''v''
           \<and> static_shape (gated_u (solver_of var) (data_format (config var)) a u v) = None
           \<and> static_shape (gated_v (solver_of var) (data_format (config var)) a u v) = None
           \<and> static_shape (fst (opaque_node (solver_of var) (data_format (config var)) a u v)) = None
           \<and> static_shape (snd (opaque_node (solver_of var) (data_format (config var)) a u v)) = None"
  using assms
  by (simp add: entry_dispatch dispatch_def after_def deferred_eq opaque_node_unknown
      gated_u_def gated_v_def tf_transpose_def)

theorem shape_reattachment_witness:
  "precondition_ok (Nonlinear (bind_nonlin (defaults\<lparr>kw_use_tf := Some True\<rparr>)))
     (TfTensor Pb3) (NdArray U21) (NdArray V13)
   \<and> use_tf (config (Nonlinear (bind_nonlin (defaults\<lparr>kw_use_tf := Some True\<rparr>))))
   \<and> (\<exists>tu tv. snd (entry echo_kernel (Nonlinear (bind_nonlin (defaults\<lparr>kw_use_tf := Some True\<rparr>)))
                   (TfTensor Pb3) (NdArray U21) (NdArray V13))
               = Inr (TfTensor tu, TfTensor tv)
             \<and> static_shape tu = Some [Some 2, Some 1] \<and> static_shape tv = Some [Some 1, Some 3])"
proof -
  have ok: "precondition_ok (Nonlinear (bind_nonlin (defaults\<lparr>kw_use_tf := Some True\<rparr>)))
              (TfTensor Pb3) (NdArray U21) (NdArray V13)"
    by (simp add: precondition_ok_def check_shape_def shape_index_def dim_simps and_then_simps ex_defs
        bind_defs)
  have flag: "use_tf (config (Nonlinear (bind_nonlin (defaults\<lparr>kw_use_tf := Some True\<rparr>))))"
    by (simp add: ex_defs bind_defs)
  from shape_reattachment [OF ok flag, of echo_kernel]
  obtain tu tv where
    r: "snd (entry echo_kernel (Nonlinear (bind_nonlin (defaults\<lparr>kw_use_tf := Some True\<rparr>)))
              (TfTensor Pb3) (NdArray U21) (NdArray V13)) = Inr (TfTensor tu, TfTensor tv)"
    and su: "static_shape tu = shape_attr (NdArray U21)"
    and sv: "static_shape tv = shape_attr (NdArray V13)"
    by blast
  have "static_shape tu = Some [Some 2, Some 1]" and "static_shape tv = Some [Some 1, Some 3]"
    using su sv by (simp_all add: ex_defs)
  with ok flag r show ?thesis by blast
qed

text \<open>
  Claim C5. Validation asymmetry. On a triple that fails the shape check, the linear and
  the nonlinear entry operation fail with the assertion before anything is imported, bound
  or invoked. The softmax entry operation has no check: it binds its solver and runs the
  dispatch code, and its outcome is never the assertion failure.
\<close>

theorem validation_asymmetry:
  assumes "check_shape a u v (use_bias p) = Inr False"
    and "check_shape a u v (use_bias q) = Inr False"
  shows "semi_nmf K p a u v = ([], Inl AssertionError)
       \<and> nonlin_semi_nmf K q a u v = ([], Inl AssertionError)
       \<and> softmax_nmf K r a u v =
           after [Import (func (softmax_nmf_solver r)), Bind (softmax_nmf_solver r)]
             (dispatch K (softmax_nmf_solver r) (use_tf r) (data_format r) a u v)
       \<and> snd (softmax_nmf K r a u v) \<noteq> Inl AssertionError"
  using assms
  by (simp add: semi_nmf_unfold nonlin_semi_nmf_unfold softmax_nmf_unfold after_def
      dispatch_not_assertion)

theorem validation_asymmetry_witness:
  "check_shape (NdArray A23) (NdArray U11) (NdArray V32) (use_bias (bind_linear defaults)) = Inr False
   \<and> check_shape (NdArray A23) (NdArray U11) (NdArray V32) (use_bias (bind_nonlin defaults)) = Inr False
   \<and> semi_nmf echo_kernel (bind_linear defaults) (NdArray A23) (NdArray U11) (NdArray V32)
       = ([], Inl AssertionError)
   \<and> nonlin_semi_nmf echo_kernel (bind_nonlin defaults) (NdArray A23) (NdArray U11) (NdArray V32)
       = ([], Inl AssertionError)
   \<and> snd (softmax_nmf echo_kernel (bind_common defaults) (NdArray A23) (NdArray U11) (NdArray V32))
       \<noteq> Inl AssertionError
   \<and> snd (softmax_nmf echo_kernel (bind_common defaults) (NdArray A23) (NdArray U11) (NdArray V32))
       = Inr (NdArray U11, NdArray V32)"
proof -
  have lin: "check_shape (NdArray A23) (NdArray U11) (NdArray V32) (use_bias (bind_linear defaults))
             = Inr False"
    by (simp add: check_shape_def shape_index_def dim_simps and_then_simps ex_defs bind_defs)
  have nonlin: "check_shape (NdArray A23) (NdArray U11) (NdArray V32)
                  (use_bias (bind_nonlin defaults)) = Inr False"
    by (simp add: check_shape_def shape_index_def dim_simps and_then_simps ex_defs bind_defs)
  have "wf_ndarray U11" and "wf_ndarray V32"
    by (simp_all add: wf_ndarray_def ex_defs)
  then have soft: "snd (softmax_nmf echo_kernel (bind_common defaults) (NdArray A23) (NdArray U11)
                     (NdArray V32)) = Inr (NdArray U11, NdArray V32)"
    by (simp add: softmax_nmf_unfold dispatch_def immediate_def after_def and_then_simps
        call_partial_def echo_kernel_def transpose_nd_involutive defaults_def bind_defs)
  from validation_asymmetry [OF lin nonlin, of echo_kernel "bind_common defaults"] lin nonlin soft
  show ?thesis by simp
qed

text \<open>
  Claim C6. Fail before work. When the shape validator returns false, a call of the linear
  or of the nonlinear entry operation raises the assertion failure (the shape error), and
  its record of solver events is empty: no solver was imported, no callable was bound and
  nothing was invoked.
\<close>

theorem shape_failure_before_solver_work:
  assumes "check_shape a u v (use_bias p) = Inr False"
    and "check_shape a u v (use_bias q) = Inr False"
  shows "semi_nmf K p a u v = ([], Inl AssertionError)
       \<and> nonlin_semi_nmf K q a u v = ([], Inl AssertionError)"
  using assms by (simp add: semi_nmf_unfold nonlin_semi_nmf_unfold)

theorem shape_failure_before_solver_work_witness:
  "check_shape (NdArray A23) (NdArray U11) (NdArray V32) (use_bias (bind_linear defaults)) = Inr False
   \<and> check_shape (NdArray A23) (NdArray U11) (NdArray V32) (use_bias (bind_nonlin defaults)) = Inr False
   \<and> semi_nmf echo_kernel (bind_linear defaults) (NdArray A23) (NdArray U11) (NdArray V32)
       = ([], Inl AssertionError)
   \<and> nonlin_semi_nmf echo_kernel (bind_nonlin defaults) (NdArray A23) (NdArray U11) (NdArray V32)
       = ([], Inl AssertionError)"
  using shape_failure_before_solver_work [of "NdArray A23" "NdArray U11" "NdArray V32"
      "bind_linear defaults" "bind_nonlin defaults" echo_kernel]
  by (simp add: check_shape_def shape_index_def dim_simps and_then_simps ex_defs bind_defs)

text \<open>
  Claim C8. Feature-first pass-through. On the immediate backend (A is an array and the
  graph flag is unset), with a data format other than batch-first, a call that gets past
  the shape precondition invokes the bound solver on a, u, v exactly as given, with no
  transpose and no exchange of factors, and returns what the solver returns.
\<close>

theorem feature_first_pass_through:
  assumes "precondition_ok var a u v"
    and "is_ndarray a" and "\<not> use_tf (config var)"
    and "data_format (config var) \<noteq> BATCH_FIRST"
  shows "entry K var a u v =
           (bound var @ [Invoke (solver_of var) a u v], call_partial K (solver_of var) a u v)"
  using assms by (simp add: entry_dispatch dispatch_def immediate_def after_def)

theorem feature_first_pass_through_witness:
  "precondition_ok (Softmax (bind_common (defaults\<lparr>kw_data_format := Some False\<rparr>)))
     (NdArray A23) (NdArray U11) (NdArray V32)
   \<and> is_ndarray (NdArray A23)
   \<and> \<not> use_tf (config (Softmax (bind_common (defaults\<lparr>kw_data_format := Some False\<rparr>))))
   \<and> data_format (config (Softmax (bind_common (defaults\<lparr>kw_data_format := Some False\<rparr>))))
       \<noteq> BATCH_FIRST
   \<and> entry echo_kernel (Softmax (bind_common (defaults\<lparr>kw_data_format := Some False\<rparr>)))
         (NdArray A23) (NdArray U11) (NdArray V32)
       = (bound (Softmax (bind_common (defaults\<lparr>kw_data_format := Some False\<rparr>))) @
            [Invoke (solver_of (Softmax (bind_common (defaults\<lparr>kw_data_format := Some False\<rparr>))))
               (NdArray A23) (NdArray U11) (NdArray V32)],
          Inr (NdArray U11, NdArray V32))"
  using feature_first_pass_through
    [of "Softmax (bind_common (defaults\<lparr>kw_data_format := Some False\<rparr>))"
        "NdArray A23" "NdArray U11" "NdArray V32" echo_kernel]
  by (simp add: precondition_ok_def ex_defs bind_defs call_partial_def)

text \<open>
  Claim C9. Unsupported backend. Take a call whose inputs select neither backend: A is not
  a concrete array and the graph flag is unset. In no such call is the solver invoked: no
  numeric solving is attempted. When the call gets past the shape assertion of its entry
  operation (the softmax entry operation has none), it fails with \<^verbatim>\<open>NotImplementedError\<close>,
  the solver having been bound but not called. When it does not, the linear and the
  nonlinear entry operation fail at that assertion first, before any solver is imported or
  bound: with the assertion failure when the validator returns false, and with the
  \<^verbatim>\<open>IndexError\<close> of the validator when a shape has too few dimensions.
\<close>

theorem unsupported_backend:
  assumes "\<not> is_ndarray a" and "\<not> use_tf (config var)"
  shows "list_all (\<lambda>e. \<not> is_invoke e) (fst (entry K var a u v))
       \<and> (precondition_ok var a u v \<longrightarrow>
            entry K var a u v = (bound var, Inl NotImplementedError))
       \<and> (\<not> precondition_ok var a u v \<longrightarrow>
            fst (entry K var a u v) = []
            \<and> (snd (entry K var a u v) = Inl AssertionError
               \<or> snd (entry K var a u v) = Inl IndexError))"
proof (cases "precondition_ok var a u v")
  case True
  then have "entry K var a u v = (bound var, Inl NotImplementedError)"
    using assms by (simp add: entry_dispatch dispatch_def after_def)
  with True show ?thesis by (simp add: bound_def)
next
  case False
  then have checked: "asserts_shape var"
    and failed: "check_shape a u v (use_bias (config var)) \<noteq> Inr True"
    by (simp_all add: precondition_ok_def split: if_splits)
  show ?thesis
  proof (cases "check_shape a u v (use_bias (config var))")
    case (Inl e)
    then have "e = IndexError" by (rule check_shape_error)
    with Inl checked False show ?thesis by (simp add: entry_unfold)
  next
    case (Inr ok)
    with failed have "\<not> ok" by simp
    with Inr checked False show ?thesis by (simp add: entry_unfold)
  qed
qed

theorem unsupported_backend_witness:
  "\<not> is_ndarray (TfTensor Pb3)
   \<and> \<not> use_tf (config (Linear (bind_linear defaults)))
   \<and> precondition_ok (Linear (bind_linear defaults)) (TfTensor Pb3) (NdArray U21) (NdArray V13)
   \<and> entry echo_kernel (Linear (bind_linear defaults)) (TfTensor Pb3) (NdArray U21) (NdArray V13)
       = ([Import (''np_nmf'', ''semi_nmf''), Bind (semi_nmf_solver (bind_linear defaults))],
          Inl NotImplementedError)
   \<and> \<not> use_tf (config (Softmax (bind_common defaults)))
   \<and> precondition_ok (Softmax (bind_common defaults)) (TfTensor Pb3) (NdArray U11) (NdArray V32)
   \<and> entry echo_kernel (Softmax (bind_common defaults)) (TfTensor Pb3) (NdArray U11) (NdArray V32)
       = ([Import (''np_nmf'', ''softmax_nmf''), Bind (softmax_nmf_solver (bind_common defaults))],
          Inl NotImplementedError)
   \<and> \<not> precondition_ok (Nonlinear (bind_nonlin defaults)) (TfTensor Pb3) (NdArray U11)
         (NdArray V32)
   \<and> \<not> use_tf (config (Nonlinear (bind_nonlin defaults)))
   \<and> fst (entry echo_kernel (Nonlinear (bind_nonlin defaults)) (TfTensor Pb3) (NdArray U11)
             (NdArray V32)) = []"
proof -
  let ?lin = "Linear (bind_linear defaults)"
  let ?soft = "Softmax (bind_common defaults)"
  let ?non = "Nonlinear (bind_nonlin defaults)"
  have t: "\<not> is_ndarray (TfTensor Pb3)" by simp
  have f1: "\<not> use_tf (config ?lin)" and f2: "\<not> use_tf (config ?soft)"
    and f3: "\<not> use_tf (config ?non)"
    by (simp_all add: ex_defs bind_defs)
  have ok1: "precondition_ok ?lin (TfTensor Pb3) (NdArray U21) (NdArray V13)"
    by (simp add: precondition_ok_def check_shape_def shape_index_def dim_simps and_then_simps
        ex_defs bind_defs)
  have ok2: "precondition_ok ?soft (TfTensor Pb3) (NdArray U11) (NdArray V32)"
    by (simp add: precondition_ok_def)
  have bad: "\<not> precondition_ok ?non (TfTensor Pb3) (NdArray U11) (NdArray V32)"
    by (simp add: precondition_ok_def check_shape_def shape_index_def dim_simps and_then_simps
        ex_defs bind_defs)
  have b1: "bound ?lin = [Import (''np_nmf'', ''semi_nmf''),
                          Bind (semi_nmf_solver (bind_linear defaults))]"
    by (simp add: bound_def semi_nmf_solver_def ex_defs bind_defs)
  have b2: "bound ?soft = [Import (''np_nmf'', ''softmax_nmf''),
                           Bind (softmax_nmf_solver (bind_common defaults))]"
    by (simp add: bound_def softmax_nmf_solver_def ex_defs bind_defs)
  from unsupported_backend [OF t f1, of echo_kernel "NdArray U21" "NdArray V13"] ok1 b1
  have r1: "entry echo_kernel ?lin (TfTensor Pb3) (NdArray U21) (NdArray V13)
            = ([Import (''np_nmf'', ''semi_nmf''), Bind (semi_nmf_solver (bind_linear defaults))],
               Inl NotImplementedError)"
    by simp
  from unsupported_backend [OF t f2, of echo_kernel "NdArray U11" "NdArray V32"] ok2 b2
  have r2: "entry echo_kernel ?soft (TfTensor Pb3) (NdArray U11) (NdArray V32)
            = ([Import (''np_nmf'', ''softmax_nmf''),
                Bind (softmax_nmf_solver (bind_common defaults))],
               Inl NotImplementedError)"
    by simp
  from unsupported_backend [OF t f3, of echo_kernel "NdArray U11" "NdArray V32"] bad
  have r3: "fst (entry echo_kernel ?non (TfTensor Pb3) (NdArray U11) (NdArray V32)) = []"
    by blast
  from t f1 ok1 r1 f2 ok2 r2 bad f3 r3 show ?thesis by blast
qed

text \<open>
  A call that selects neither backend and does not fail with the unsupported-backend error:
  the linear (and the nonlinear) entry operation, given a placeholder of shape [?,3] for A
  with use_tf unset and factors of shapes [1,1] and [3,2], fails at the shape assertion.
\<close>

theorem unsupported_backend_shape_error_first:
  "\<not> is_ndarray (TfTensor Pb3)
   \<and> \<not> use_tf (config (Linear (bind_linear defaults)))
   \<and> entry echo_kernel (Linear (bind_linear defaults)) (TfTensor Pb3) (NdArray U11) (NdArray V32)
       = ([], Inl AssertionError)
   \<and> \<not> use_tf (config (Nonlinear (bind_nonlin defaults)))
   \<and> entry echo_kernel (Nonlinear (bind_nonlin defaults)) (TfTensor Pb3) (NdArray U11)
         (NdArray V32)
       = ([], Inl AssertionError)"
proof -
  have "check_shape (TfTensor Pb3) (NdArray U11) (NdArray V32) False = Inr False"
    by (simp add: check_shape_def shape_index_def dim_simps and_then_simps ex_defs)
  then show ?thesis
    by (simp add: semi_nmf_unfold nonlin_semi_nmf_unfold defaults_def bind_defs)
qed

text \<open>
  Claim C10. Backend-flag precedence. For a call that gets past the shape precondition:
  when A is a concrete array but the graph flag is set, the graph branch is taken: the
  outcome is that of the graph branch, the result is a pair of graph tensors and the solver
  is not invoked during the call. The immediate branch is taken when A is an array and the
  flag is unset, and the solver is invoked during a call only in that case.
\<close>

theorem backend_flag_precedence:
  assumes "precondition_ok var a u v"
  shows "(is_ndarray a \<and> use_tf (config var) \<longrightarrow>
            entry K var a u v =
              after (bound var) (deferred (solver_of var) (data_format (config var)) a u v)
          \<and> (\<exists>tu tv. snd (entry K var a u v) = Inr (TfTensor tu, TfTensor tv))
          \<and> list_all (\<lambda>e. \<not> is_invoke e) (fst (entry K var a u v)))
       \<and> (is_ndarray a \<and> \<not> use_tf (config var) \<longrightarrow>
            entry K var a u v =
              after (bound var) (immediate K (solver_of var) (data_format (config var)) a u v))
       \<and> (list_ex is_invoke (fst (entry K var a u v)) \<longrightarrow>
            is_ndarray a \<and> \<not> use_tf (config var))"
  using assms
  by (auto simp add: entry_dispatch dispatch_def after_def bound_def deferred_eq)

theorem backend_flag_precedence_witness:
  "precondition_ok (Linear (bind_linear (defaults\<lparr>kw_use_tf := Some True\<rparr>)))
     (NdArray A23) (NdArray U21) (NdArray V13)
   \<and> is_ndarray (NdArray A23)
   \<and> use_tf (config (Linear (bind_linear (defaults\<lparr>kw_use_tf := Some True\<rparr>))))
   \<and> (\<exists>tu tv. snd (entry echo_kernel (Linear (bind_linear (defaults\<lparr>kw_use_tf := Some True\<rparr>)))
                   (NdArray A23) (NdArray U21) (NdArray V13))
               = Inr (TfTensor tu, TfTensor tv))
   \<and> list_all (\<lambda>e. \<not> is_invoke e)
        (fst (entry echo_kernel (Linear (bind_linear (defaults\<lparr>kw_use_tf := Some True\<rparr>)))
                (NdArray A23) (NdArray U21) (NdArray V13)))
   \<and> precondition_ok (Linear (bind_linear defaults)) (NdArray A23) (NdArray U21) (NdArray V13)
   \<and> \<not> use_tf (config (Linear (bind_linear defaults)))
   \<and> entry echo_kernel (Linear (bind_linear defaults)) (NdArray A23) (NdArray U21) (NdArray V13)
       = after (bound (Linear (bind_linear defaults)))
           (immediate echo_kernel (solver_of (Linear (bind_linear defaults)))
              (data_format (config (Linear (bind_linear defaults))))
              (NdArray A23) (NdArray U21) (NdArray V13))"
proof -
  let ?var = "Linear (bind_linear (defaults\<lparr>kw_use_tf := Some True\<rparr>))"
  let ?lin = "Linear (bind_linear defaults)"
  have ok: "precondition_ok ?var (NdArray A23) (NdArray U21) (NdArray V13)"
    by (simp add: precondition_ok_def check_shape_def shape_index_def dim_simps and_then_simps
        ex_defs bind_defs)
  have arr: "is_ndarray (NdArray A23)" by simp
  have flag: "use_tf (config ?var)"
    by (simp add: ex_defs bind_defs)
  have ok2: "precondition_ok ?lin (NdArray A23) (NdArray U21) (NdArray V13)"
    by (simp add: precondition_ok_def check_shape_def shape_index_def dim_simps and_then_simps
        ex_defs bind_defs)
  have flag2: "\<not> use_tf (config ?lin)"
    by (simp add: ex_defs bind_defs)
  from backend_flag_precedence [OF ok, of echo_kernel]
    backend_flag_precedence [OF ok2, of echo_kernel] ok arr flag ok2 flag2
  show ?thesis by blast
qed

text \<open>
  Claim C3. The validity gate of the graph backend, and its absence on the immediate one.
  The statement is about calls that get past the shape precondition; a call stopped there
  binds no solver, so no solver output arises.

  On the graph backend the call returns two tensors. When the bound solver, on the
  materialised operands, returns a pair of arrays one of which has a NaN or an infinite
  entry, fetching the returned pair fails with the invalid-argument error of a
  \<^verbatim>\<open>check_numerics\<close> node, and so does fetching the returned tensor that is taken from that
  output. Whatever the solver does and whatever is fed, no fetch of a returned tensor ever
  yields an array with a NaN or an infinite entry: the value reaches no consumer.

  On the immediate backend there is no gate: the solver's matrices come back with every
  entry as the solver produced it. With a data format other than batch-first the call
  returns the solver's result itself. In batch-first format it returns the solver's pair
  converted back to the caller's orientation (exchanged and transposed): every entry
  \<^verbatim>\<open>[i, j]\<close> of a solver output is entry \<^verbatim>\<open>[j, i]\<close> of the returned matrix, a NaN or an
  infinity included.
\<close>

theorem validity_gate:
  assumes "precondition_ok var a u v"
  shows "(use_tf (config var) \<longrightarrow>
            (\<exists>tu tv. snd (entry K var a u v) = Inr (TfTensor tu, TfTensor tv)
               \<and> (\<forall>x. run K feed tu = Inr x \<longrightarrow> \<not> has_nonfinite x)
               \<and> (\<forall>x. run K feed tv = Inr x \<longrightarrow> \<not> has_nonfinite x)
               \<and> (\<forall>x y. fetch K feed (tu, tv) = Inr (x, y)
                     \<longrightarrow> \<not> has_nonfinite x \<and> \<not> has_nonfinite y)
               \<and> (\<forall>ku kv.
                     kernel_output K feed (solver_of var) (data_format (config var)) a u v
                       = Inr (ku, kv) \<longrightarrow>
                     (has_nonfinite (if data_format (config var) = BATCH_FIRST then kv else ku)
                        \<longrightarrow> run K feed tu = Inl (InvalidArgumentError ''u''))
                   \<and> (has_nonfinite (if data_format (config var) = BATCH_FIRST then ku else kv)
                        \<longrightarrow> run K feed tv = Inl (InvalidArgumentError ''v''))
                   \<and> (has_nonfinite ku \<or> has_nonfinite kv
                        \<longrightarrow> (\<exists>msg. fetch K feed (tu, tv) = Inl (InvalidArgumentError msg))))))
       \<and> (is_ndarray a \<and> \<not> use_tf (config var) \<and> data_format (config var) \<noteq> BATCH_FIRST \<longrightarrow>
            snd (entry K var a u v) = call_partial K (solver_of var) a u v)
       \<and> (\<forall>A U V ku kv.
             a = NdArray A \<and> u = NdArray U \<and> v = NdArray V \<and> \<not> use_tf (config var)
             \<and> data_format (config var) = BATCH_FIRST
             \<and> call_partial K (solver_of var) (NdArray (transpose_nd A))
                  (NdArray (transpose_nd V)) (NdArray (transpose_nd U))
                = Inr (NdArray ku, NdArray kv) \<longrightarrow>
             snd (entry K var a u v) = Inr (NdArray (transpose_nd kv), NdArray (transpose_nd ku))
             \<and> has_nonfinite (transpose_nd kv) = has_nonfinite kv
             \<and> has_nonfinite (transpose_nd ku) = has_nonfinite ku
             \<and> (\<forall>i<nrows kv. \<forall>j<ncols kv. rows (transpose_nd kv) ! j ! i = rows kv ! i ! j)
             \<and> (\<forall>i<nrows ku. \<forall>j<ncols ku. rows (transpose_nd ku) ! j ! i = rows ku ! i ! j))"
proof (intro conjI)
  show "use_tf (config var) \<longrightarrow>
            (\<exists>tu tv. snd (entry K var a u v) = Inr (TfTensor tu, TfTensor tv)
               \<and> (\<forall>x. run K feed tu = Inr x \<longrightarrow> \<not> has_nonfinite x)
               \<and> (\<forall>x. run K feed tv = Inr x \<longrightarrow> \<not> has_nonfinite x)
               \<and> (\<forall>x y. fetch K feed (tu, tv) = Inr (x, y)
                     \<longrightarrow> \<not> has_nonfinite x \<and> \<not> has_nonfinite y)
               \<and> (\<forall>ku kv.
                     kernel_output K feed (solver_of var) (data_format (config var)) a u v
                       = Inr (ku, kv) \<longrightarrow>
                     (has_nonfinite (if data_format (config var) = BATCH_FIRST then kv else ku)
                        \<longrightarrow> run K feed tu = Inl (InvalidArgumentError ''u''))
                   \<and> (has_nonfinite (if data_format (config var) = BATCH_FIRST then ku else kv)
                        \<longrightarrow> run K feed tv = Inl (InvalidArgumentError ''v''))
                   \<and> (has_nonfinite ku \<or> has_nonfinite kv
                        \<longrightarrow> (\<exists>msg. fetch K feed (tu, tv) = Inl (InvalidArgumentError msg)))))"
  proof
    assume tf: "use_tf (config var)"
    let ?f = "solver_of var" and ?fmt = "data_format (config var)"
    let ?tu = "Tensor (CheckNumerics (gated_u ?f ?fmt a u v) ''u'') (shape_attr u)"
    let ?tv = "Tensor (CheckNumerics (gated_v ?f ?fmt a u v) ''v'') (shape_attr v)"
    have res: "snd (entry K var a u v) = Inr (TfTensor ?tu, TfTensor ?tv)"
      using assms tf by (simp add: entry_dispatch dispatch_def after_def deferred_eq)
    note leak = gate_never_leaks [of K feed ?f ?fmt a u v "shape_attr u" "shape_attr v"]
    have fails: "\<forall>ku kv. kernel_output K feed ?f ?fmt a u v = Inr (ku, kv) \<longrightarrow>
                (has_nonfinite (if ?fmt = BATCH_FIRST then kv else ku)
                   \<longrightarrow> run K feed ?tu = Inl (InvalidArgumentError ''u''))
              \<and> (has_nonfinite (if ?fmt = BATCH_FIRST then ku else kv)
                   \<longrightarrow> run K feed ?tv = Inl (InvalidArgumentError ''v''))
              \<and> (has_nonfinite ku \<or> has_nonfinite kv
                   \<longrightarrow> (\<exists>msg. fetch K feed (?tu, ?tv) = Inl (InvalidArgumentError msg)))"
      using gate_fails [of K feed ?f ?fmt a u v _ _ "shape_attr u" "shape_attr v"] by blast
    from res leak fails show "\<exists>tu tv. snd (entry K var a u v) = Inr (TfTensor tu, TfTensor tv)
               \<and> (\<forall>x. run K feed tu = Inr x \<longrightarrow> \<not> has_nonfinite x)
               \<and> (\<forall>x. run K feed tv = Inr x \<longrightarrow> \<not> has_nonfinite x)
               \<and> (\<forall>x y. fetch K feed (tu, tv) = Inr (x, y)
                     \<longrightarrow> \<not> has_nonfinite x \<and> \<not> has_nonfinite y)
               \<and> (\<forall>ku kv.
                     kernel_output K feed (solver_of var) (data_format (config var)) a u v
                       = Inr (ku, kv) \<longrightarrow>
                     (has_nonfinite (if data_format (config var) = BATCH_FIRST then kv else ku)
                        \<longrightarrow> run K feed tu = Inl (InvalidArgumentError ''u''))
                   \<and> (has_nonfinite (if data_format (config var) = BATCH_FIRST then ku else kv)
                        \<longrightarrow> run K feed tv = Inl (InvalidArgumentError ''v''))
                   \<and> (has_nonfinite ku \<or> has_nonfinite kv
                        \<longrightarrow> (\<exists>msg. fetch K feed (tu, tv) = Inl (InvalidArgumentError msg))))"
      by (intro exI [of _ ?tu] exI [of _ ?tv]) blast
  qed
next
  show "is_ndarray a \<and> \<not> use_tf (config var) \<and> data_format (config var) \<noteq> BATCH_FIRST \<longrightarrow>
            snd (entry K var a u v) = call_partial K (solver_of var) a u v"
    using assms by (simp add: entry_dispatch dispatch_def immediate_def after_def)
next
  show "\<forall>A U V ku kv.
             a = NdArray A \<and> u = NdArray U \<and> v = NdArray V \<and> \<not> use_tf (config var)
             \<and> data_format (config var) = BATCH_FIRST
             \<and> call_partial K (solver_of var) (NdArray (transpose_nd A))
                  (NdArray (transpose_nd V)) (NdArray (transpose_nd U))
                = Inr (NdArray ku, NdArray kv) \<longrightarrow>
             snd (entry K var a u v) = Inr (NdArray (transpose_nd kv), NdArray (transpose_nd ku))
             \<and> has_nonfinite (transpose_nd kv) = has_nonfinite kv
             \<and> has_nonfinite (transpose_nd ku) = has_nonfinite ku
             \<and> (\<forall>i<nrows kv. \<forall>j<ncols kv. rows (transpose_nd kv) ! j ! i = rows kv ! i ! j)
             \<and> (\<forall>i<nrows ku. \<forall>j<ncols ku. rows (transpose_nd ku) ! j ! i = rows ku ! i ! j)"
  proof (intro allI impI)
    fix A U V ku kv
    assume h: "a = NdArray A \<and> u = NdArray U \<and> v = NdArray V \<and> \<not> use_tf (config var)
             \<and> data_format (config var) = BATCH_FIRST
             \<and> call_partial K (solver_of var) (NdArray (transpose_nd A))
                  (NdArray (transpose_nd V)) (NdArray (transpose_nd U))
                = Inr (NdArray ku, NdArray kv)"
    then have "snd (immediate K (solver_of var) BATCH_FIRST (NdArray A) (NdArray U) (NdArray V))
               = Inr (NdArray (transpose_nd kv), NdArray (transpose_nd ku))"
      using immediate_batch_first by blast
    then have "snd (entry K var a u v)
               = Inr (NdArray (transpose_nd kv), NdArray (transpose_nd ku))"
      using assms h by (simp add: entry_dispatch dispatch_def after_def)
    then show "snd (entry K var a u v) = Inr (NdArray (transpose_nd kv), NdArray (transpose_nd ku))
             \<and> has_nonfinite (transpose_nd kv) = has_nonfinite kv
             \<and> has_nonfinite (transpose_nd ku) = has_nonfinite ku
             \<and> (\<forall>i<nrows kv. \<forall>j<ncols kv. rows (transpose_nd kv) ! j ! i = rows kv ! i ! j)
             \<and> (\<forall>i<nrows ku. \<forall>j<ncols ku. rows (transpose_nd ku) ! j ! i = rows ku ! i ! j)"
      by (simp add: has_nonfinite_transpose_nd transpose_nd_entry)
  qed
qed

theorem validity_gate_witness:
  "precondition_ok (Linear (bind_linear (defaults\<lparr>kw_use_tf := Some True\<rparr>)))
     (TfTensor Pb3) (NdArray U21) (NdArray V13)
   \<and> use_tf (config (Linear (bind_linear (defaults\<lparr>kw_use_tf := Some True\<rparr>))))
   \<and> kernel_output nan_kernel feed_A23
         (solver_of (Linear (bind_linear (defaults\<lparr>kw_use_tf := Some True\<rparr>))))
         (data_format (config (Linear (bind_linear (defaults\<lparr>kw_use_tf := Some True\<rparr>)))))
         (TfTensor Pb3) (NdArray U21) (NdArray V13) = Inr (X31, Y12)
   \<and> has_nonfinite X31
   \<and> (\<exists>tu tv. snd (entry nan_kernel (Linear (bind_linear (defaults\<lparr>kw_use_tf := Some True\<rparr>)))
                   (TfTensor Pb3) (NdArray U21) (NdArray V13))
               = Inr (TfTensor tu, TfTensor tv)
             \<and> run nan_kernel feed_A23 tv = Inl (InvalidArgumentError ''v'')
             \<and> (\<exists>msg. fetch nan_kernel feed_A23 (tu, tv) = Inl (InvalidArgumentError msg)))
   \<and> precondition_ok (Linear (bind_linear defaults)) (NdArray A23) (NdArray U21) (NdArray V13)
   \<and> \<not> use_tf (config (Linear (bind_linear defaults)))
   \<and> data_format (config (Linear (bind_linear defaults))) = BATCH_FIRST
   \<and> call_partial nan_kernel (solver_of (Linear (bind_linear defaults)))
         (NdArray (transpose_nd A23)) (NdArray (transpose_nd V13)) (NdArray (transpose_nd U21))
       = Inr (NdArray X31, NdArray Y12)
   \<and> snd (entry nan_kernel (Linear (bind_linear defaults)) (NdArray A23) (NdArray U21)
             (NdArray V13))
       = Inr (NdArray (transpose_nd Y12), NdArray (transpose_nd X31))
   \<and> has_nonfinite (transpose_nd X31)
   \<and> precondition_ok (Softmax (bind_common (defaults\<lparr>kw_data_format := Some False\<rparr>)))
         (NdArray A23) (NdArray U21) (NdArray V13)
   \<and> snd (entry nan_kernel (Softmax (bind_common (defaults\<lparr>kw_data_format := Some False\<rparr>)))
             (NdArray A23) (NdArray U21) (NdArray V13))
       = Inr (NdArray X31, NdArray Y12)"
proof -
  let ?var = "Linear (bind_linear (defaults\<lparr>kw_use_tf := Some True\<rparr>))"
  let ?lin = "Linear (bind_linear defaults)"
  let ?soft = "Softmax (bind_common (defaults\<lparr>kw_data_format := Some False\<rparr>))"
  have ok: "precondition_ok ?var (TfTensor Pb3) (NdArray U21) (NdArray V13)"
    by (simp add: precondition_ok_def check_shape_def shape_index_def dim_simps and_then_simps
        ex_defs bind_defs)
  have flag: "use_tf (config ?var)"
    by (simp add: ex_defs bind_defs)
  have fmt: "data_format (config ?var) = BATCH_FIRST"
    by (simp add: ex_defs bind_defs)
  have fit: "feeds_fit feed_A23 (tf_transpose (TfTensor Pb3))"
    by (simp add: feeds_fit_def fits_def compatible_dim_def tf_transpose_def Pb3_def
        feed_A23_def A23_def)
  have fed: "compute nan_kernel feed_A23 (tf_transpose (TfTensor Pb3)) = Inr (transpose_nd A23)"
    by (simp add: tf_transpose_def Pb3_def feed_A23_def and_then_simps)
  have const: "feeds_fit feed_A23 (tf_transpose (NdArray m))"
    "compute nan_kernel feed_A23 (tf_transpose (NdArray m)) = Inr (transpose_nd m)" for m
    by (simp_all add: tf_transpose_def feeds_fit_simps and_then_simps)
  let ?node = "opaque_node (solver_of ?var) (data_format (config ?var))
                 (TfTensor Pb3) (NdArray U21) (NdArray V13)"
  have node: "?node = tf_py_func (solver_of ?var) (TfTensor (tf_transpose (TfTensor Pb3)))
                        (TfTensor (tf_transpose (NdArray V13)))
                        (TfTensor (tf_transpose (NdArray U21)))"
    using fmt by (simp add: opaque_node_def)
  have out0: "run nan_kernel feed_A23 (fst ?node) = Inr X31"
    unfolding node
    by (simp add: tf_py_func_def Let_def run_def feeds_fit_simps fit fed const and_then_simps
        call_partial_def nan_kernel_def)
  have out1: "run nan_kernel feed_A23 (snd ?node) = Inr Y12"
    unfolding node
    by (simp add: tf_py_func_def Let_def run_def feeds_fit_simps fit fed const and_then_simps
        call_partial_def nan_kernel_def)
  have ko: "kernel_output nan_kernel feed_A23 (solver_of ?var) (data_format (config ?var))
              (TfTensor Pb3) (NdArray U21) (NdArray V13) = Inr (X31, Y12)"
    unfolding kernel_output_def out0 out1 by (simp add: and_then_simps)
  from validity_gate [OF ok, of nan_kernel feed_A23, THEN conjunct1] flag
  obtain tu tv where
    r: "snd (entry nan_kernel ?var (TfTensor Pb3) (NdArray U21) (NdArray V13))
          = Inr (TfTensor tu, TfTensor tv)"
    and g: "\<forall>ku kv. kernel_output nan_kernel feed_A23 (solver_of ?var) (data_format (config ?var))
                 (TfTensor Pb3) (NdArray U21) (NdArray V13) = Inr (ku, kv) \<longrightarrow>
               (has_nonfinite (if data_format (config ?var) = BATCH_FIRST then kv else ku)
                  \<longrightarrow> run nan_kernel feed_A23 tu = Inl (InvalidArgumentError ''u''))
             \<and> (has_nonfinite (if data_format (config ?var) = BATCH_FIRST then ku else kv)
                  \<longrightarrow> run nan_kernel feed_A23 tv = Inl (InvalidArgumentError ''v''))
             \<and> (has_nonfinite ku \<or> has_nonfinite kv
                  \<longrightarrow> (\<exists>msg. fetch nan_kernel feed_A23 (tu, tv) = Inl (InvalidArgumentError msg)))"
    by blast
  from g ko fmt has_nonfinite_X31
  have gate: "run nan_kernel feed_A23 tv = Inl (InvalidArgumentError ''v'')"
    and gate2: "\<exists>msg. fetch nan_kernel feed_A23 (tu, tv) = Inl (InvalidArgumentError msg)"
    by simp_all
  have deferred_part:
    "\<exists>tu tv. snd (entry nan_kernel ?var (TfTensor Pb3) (NdArray U21) (NdArray V13))
               = Inr (TfTensor tu, TfTensor tv)
             \<and> run nan_kernel feed_A23 tv = Inl (InvalidArgumentError ''v'')
             \<and> (\<exists>msg. fetch nan_kernel feed_A23 (tu, tv) = Inl (InvalidArgumentError msg))"
    using r gate gate2 by blast
  have ok2: "precondition_ok ?lin (NdArray A23) (NdArray U21) (NdArray V13)"
    by (simp add: precondition_ok_def check_shape_def shape_index_def dim_simps and_then_simps
        ex_defs bind_defs)
  have flag2: "\<not> use_tf (config ?lin)" and fmt2: "data_format (config ?lin) = BATCH_FIRST"
    by (simp_all add: ex_defs bind_defs)
  have c: "call_partial nan_kernel (solver_of ?lin)
             (NdArray (transpose_nd A23)) (NdArray (transpose_nd V13)) (NdArray (transpose_nd U21))
           = Inr (NdArray X31, NdArray Y12)"
    by (simp add: call_partial_def nan_kernel_def)
  note batch_first = validity_gate [OF ok2, of nan_kernel no_feed, THEN conjunct2, THEN conjunct2,
      THEN spec, THEN spec, THEN spec, THEN spec, THEN spec, of A23 U21 V13 X31 Y12]
  from batch_first flag2 fmt2 c
  have imm: "snd (entry nan_kernel ?lin (NdArray A23) (NdArray U21) (NdArray V13))
               = Inr (NdArray (transpose_nd Y12), NdArray (transpose_nd X31))"
    and keep: "has_nonfinite (transpose_nd X31) = has_nonfinite X31"
    by blast+
  from keep has_nonfinite_X31 have kept: "has_nonfinite (transpose_nd X31)"
    by simp
  have ok3: "precondition_ok ?soft (NdArray A23) (NdArray U21) (NdArray V13)"
    by (simp add: precondition_ok_def)
  have flags3: "is_ndarray (NdArray A23) \<and> \<not> use_tf (config ?soft)
                \<and> data_format (config ?soft) \<noteq> BATCH_FIRST"
    by (simp add: ex_defs bind_defs)
  from validity_gate [OF ok3, of nan_kernel no_feed, THEN conjunct2, THEN conjunct1] flags3
  have "snd (entry nan_kernel ?soft (NdArray A23) (NdArray U21) (NdArray V13))
          = call_partial nan_kernel (solver_of ?soft) (NdArray A23) (NdArray U21) (NdArray V13)"
    by blast
  then have ff: "snd (entry nan_kernel ?soft (NdArray A23) (NdArray U21) (NdArray V13))
                   = Inr (NdArray X31, NdArray Y12)"
    by (simp add: call_partial_def nan_kernel_def)
  show ?thesis
    by (intro conjI) (fact ok flag ko has_nonfinite_X31 deferred_part ok2 flag2 fmt2 c imm
        kept ok3 ff)+
qed

text \<open>
  Claim C7. Variant isolation. The callable that the nonlinear entry operation binds
  carries \<^verbatim>\<open>num_calc_u\<close> and \<^verbatim>\<open>num_calc_v\<close> with exactly the values of its parameters, which
  are the values given in the call (or the default 1). The callable that the linear entry
  operation binds carries neither keyword. The linear entry operation declares no such
  parameters: a call that passes none of the two counts runs the body on the remaining
  fields, and a call that passes either of them is rejected with a \<^verbatim>\<open>TypeError\<close> before the
  body runs, rather than having the extra field ignored.
\<close>

theorem variant_isolation:
  "map_of (bound_kwargs (nonlin_semi_nmf_solver q)) ''num_calc_u'' = Some (PInt (num_calc_u q))
   \<and> map_of (bound_kwargs (nonlin_semi_nmf_solver q)) ''num_calc_v'' = Some (PInt (num_calc_v q))
   \<and> map_of (bound_kwargs (semi_nmf_solver p)) ''num_calc_u'' = None
   \<and> map_of (bound_kwargs (semi_nmf_solver p)) ''num_calc_v'' = None
   \<and> (check_shape a u v (use_bias q) = Inr True \<longrightarrow>
        take 2 (fst (nonlin_semi_nmf K q a u v)) =
          [Import (func (nonlin_semi_nmf_solver q)), Bind (nonlin_semi_nmf_solver q)])
   \<and> (check_shape a u v (use_bias p) = Inr True \<longrightarrow>
        take 2 (fst (semi_nmf K p a u v)) =
          [Import (func (semi_nmf_solver p)), Bind (semi_nmf_solver p)])
   \<and> nonlin_semi_nmf_call K a u v kw = nonlin_semi_nmf K (bind_nonlin kw) a u v
   \<and> num_calc_u (bind_nonlin kw) = given 1 (kw_num_calc_u kw)
   \<and> num_calc_v (bind_nonlin kw) = given 1 (kw_num_calc_v kw)
   \<and> (kw_num_calc_u kw = None \<and> kw_num_calc_v kw = None \<longrightarrow>
        semi_nmf_call K a u v kw = semi_nmf K (bind_linear kw) a u v)
   \<and> (kw_num_calc_u kw \<noteq> None \<or> kw_num_calc_v kw \<noteq> None \<longrightarrow>
        semi_nmf_call K a u v kw = ([], Inl TypeError))"
proof -
  have "map_of (bound_kwargs (nonlin_semi_nmf_solver q)) ''num_calc_u'' = Some (PInt (num_calc_u q))"
    and "map_of (bound_kwargs (nonlin_semi_nmf_solver q)) ''num_calc_v'' = Some (PInt (num_calc_v q))"
    by (simp_all add: nonlin_semi_nmf_solver_def)
  moreover have "map_of (bound_kwargs (semi_nmf_solver p)) ''num_calc_u'' = None"
    and "map_of (bound_kwargs (semi_nmf_solver p)) ''num_calc_v'' = None"
    by (simp_all add: semi_nmf_solver_def)
  moreover have "check_shape a u v (use_bias q) = Inr True \<longrightarrow>
        take 2 (fst (nonlin_semi_nmf K q a u v)) =
          [Import (func (nonlin_semi_nmf_solver q)), Bind (nonlin_semi_nmf_solver q)]"
    by (simp add: nonlin_semi_nmf_unfold after_def)
  moreover have "check_shape a u v (use_bias p) = Inr True \<longrightarrow>
        take 2 (fst (semi_nmf K p a u v)) =
          [Import (func (semi_nmf_solver p)), Bind (semi_nmf_solver p)]"
    by (simp add: semi_nmf_unfold after_def)
  moreover have "nonlin_semi_nmf_call K a u v kw = nonlin_semi_nmf K (bind_nonlin kw) a u v"
    by (simp add: nonlin_semi_nmf_call_def)
  moreover have "num_calc_u (bind_nonlin kw) = given 1 (kw_num_calc_u kw)"
    and "num_calc_v (bind_nonlin kw) = given 1 (kw_num_calc_v kw)"
    by (simp_all add: bind_nonlin_def bind_linear_def bind_common_def
        common_params.defs linear_params.defs nonlin_params.defs)
  moreover have "kw_num_calc_u kw = None \<and> kw_num_calc_v kw = None \<longrightarrow>
        semi_nmf_call K a u v kw = semi_nmf K (bind_linear kw) a u v"
    by (simp add: semi_nmf_call_def)
  moreover have "kw_num_calc_u kw \<noteq> None \<or> kw_num_calc_v kw \<noteq> None \<longrightarrow>
        semi_nmf_call K a u v kw = ([], Inl TypeError)"
    by (auto simp add: semi_nmf_call_def)
  ultimately show ?thesis by blast
qed

theorem variant_isolation_witness:
  "map_of (bound_kwargs (nonlin_semi_nmf_solver
       (bind_nonlin (defaults\<lparr>kw_num_calc_u := Some 3, kw_num_calc_v := Some 2\<rparr>)))) ''num_calc_u''
     = Some (PInt 3)
   \<and> map_of (bound_kwargs (nonlin_semi_nmf_solver
       (bind_nonlin (defaults\<lparr>kw_num_calc_u := Some 3, kw_num_calc_v := Some 2\<rparr>)))) ''num_calc_v''
     = Some (PInt 2)
   \<and> map_of (bound_kwargs (semi_nmf_solver (bind_linear defaults))) ''num_calc_u'' = None
   \<and> map_of (bound_kwargs (semi_nmf_solver (bind_linear defaults))) ''num_calc_v'' = None
   \<and> check_shape (NdArray A23) (NdArray U21) (NdArray V13)
        (use_bias (bind_nonlin (defaults\<lparr>kw_num_calc_u := Some 3, kw_num_calc_v := Some 2\<rparr>)))
       = Inr True
   \<and> take 2 (fst (nonlin_semi_nmf echo_kernel
          (bind_nonlin (defaults\<lparr>kw_num_calc_u := Some 3, kw_num_calc_v := Some 2\<rparr>))
          (NdArray A23) (NdArray U21) (NdArray V13)))
       = [Import (''np_nmf'', ''nonlin_semi_nmf''),
          Bind \<lparr> func = (''np_nmf'', ''nonlin_semi_nmf''),
                 bound_kwargs =
                   [(''rcond'', PFloat (1 / 10 ^ 14)), (''eps'', PFloat (1 / 10 ^ 15)),
                    (''num_iters'', PInt 1), (''num_calc_u'', PInt 3),
                    (''num_calc_v'', PInt 2), (''first_nneg'', PBool True)] \<rparr>]
   \<and> kw_num_calc_u defaults = None \<and> kw_num_calc_v defaults = None
   \<and> semi_nmf_call echo_kernel (NdArray A23) (NdArray U21) (NdArray V13) defaults
       = semi_nmf echo_kernel (bind_linear defaults) (NdArray A23) (NdArray U21) (NdArray V13)
   \<and> kw_num_calc_u (defaults\<lparr>kw_num_calc_u := Some 3, kw_num_calc_v := Some 2\<rparr>) \<noteq> None
   \<and> semi_nmf_call echo_kernel (NdArray A23) (NdArray U21) (NdArray V13)
        (defaults\<lparr>kw_num_calc_u := Some 3, kw_num_calc_v := Some 2\<rparr>)
       = ([], Inl TypeError)"
proof -
  let ?kw = "defaults\<lparr>kw_num_calc_u := Some 3, kw_num_calc_v := Some 2\<rparr>"
  have n: "kw_num_calc_u defaults = None \<and> kw_num_calc_v defaults = None"
    by (simp add: defaults_def)
  have given: "kw_num_calc_u ?kw \<noteq> None"
    by (simp add: defaults_def)
  have cu: "num_calc_u (bind_nonlin ?kw) = 3" and cv: "num_calc_v (bind_nonlin ?kw) = 2"
    by (simp_all add: defaults_def bind_defs)
  have ok: "check_shape (NdArray A23) (NdArray U21) (NdArray V13) (use_bias (bind_nonlin ?kw))
            = Inr True"
    by (simp add: check_shape_def shape_index_def dim_simps and_then_simps ex_defs bind_defs)
  have solver: "nonlin_semi_nmf_solver (bind_nonlin ?kw) =
                  \<lparr> func = (''np_nmf'', ''nonlin_semi_nmf''),
                    bound_kwargs =
                      [(''rcond'', PFloat (1 / 10 ^ 14)), (''eps'', PFloat (1 / 10 ^ 15)),
                       (''num_iters'', PInt 1), (''num_calc_u'', PInt 3),
                       (''num_calc_v'', PInt 2), (''first_nneg'', PBool True)] \<rparr>"
    by (simp add: nonlin_semi_nmf_solver_def defaults_def bind_defs)
  note inst1 = variant_isolation [of "bind_nonlin ?kw" "bind_linear defaults" "NdArray A23"
      "NdArray U21" "NdArray V13" echo_kernel defaults]
  note inst2 = variant_isolation [of "bind_nonlin ?kw" "bind_linear defaults" "NdArray A23"
      "NdArray U21" "NdArray V13" echo_kernel ?kw]
  from inst2 given
  have rejected: "semi_nmf_call echo_kernel (NdArray A23) (NdArray U21) (NdArray V13) ?kw
                  = ([], Inl TypeError)"
    by blast
  from inst1 n cu cv ok solver rejected given
  show ?thesis by simp
qed

text \<open>
  The linear entry operation called with the two refinement counts 3 and 2 fails with a
  \<^verbatim>\<open>TypeError\<close>; the same call without them does not.
\<close>

theorem linear_entry_rejects_counts:
  "semi_nmf_call echo_kernel (NdArray A23) (NdArray U21) (NdArray V13)
     (defaults\<lparr>kw_num_calc_u := Some 3, kw_num_calc_v := Some 2\<rparr>) = ([], Inl TypeError)
   \<and> semi_nmf_call echo_kernel (NdArray A23) (NdArray U21) (NdArray V13) defaults
       \<noteq> ([], Inl TypeError)"
proof -
  have ok: "check_shape (NdArray A23) (NdArray U21) (NdArray V13) False = Inr True"
    by (simp add: check_shape_def shape_index_def dim_simps and_then_simps ex_defs)
  have "semi_nmf_call echo_kernel (NdArray A23) (NdArray U21) (NdArray V13)
          (defaults\<lparr>kw_num_calc_u := Some 3, kw_num_calc_v := Some 2\<rparr>) = ([], Inl TypeError)"
    by (simp add: semi_nmf_call_def defaults_def)
  moreover have "fst (semi_nmf_call echo_kernel (NdArray A23) (NdArray U21) (NdArray V13) defaults)
                 \<noteq> []"
    using ok by (simp add: semi_nmf_call_def semi_nmf_unfold after_def defaults_def bind_defs)
  ultimately show ?thesis by auto
qed

end
